theory Spec2Isabelle
  imports Main "HOL-Library.Sublist" "HOL-Library.AList"
begin

section \<open>Strings and paths\<close>

text \<open>
  Python strings are modelled as \<^typ>\<open>string\<close>; a character is read as the code point
  of the same number (0 to 255).
\<close>

definition startswith :: "string \<Rightarrow> string \<Rightarrow> bool" where
  \<comment> \<open>\<^verbatim>\<open>s.startswith(p)\<close>\<close>
  "startswith s p = prefix p s"

definition endswith :: "string \<Rightarrow> string \<Rightarrow> bool" where
  \<comment> \<open>\<^verbatim>\<open>s.endswith(e)\<close>\<close>
  "endswith s e = suffix e s"

definition isspace :: "char \<Rightarrow> bool" where
  \<comment> \<open>The code points below 256 that \<^verbatim>\<open>str.isspace\<close> accepts: U+0009 to U+000D,
      U+001C to U+001F, U+0020, U+0085 and U+00A0.\<close>
  "isspace ch =
     (let n = (of_char ch :: nat)
      in (9 \<le> n \<and> n \<le> 13) \<or> (28 \<le> n \<and> n \<le> 32) \<or> n = 133 \<or> n = 160)"

definition lstrip :: "string \<Rightarrow> string" where
  \<comment> \<open>\<^verbatim>\<open>s.lstrip()\<close>\<close>
  "lstrip s = dropWhile isspace s"

definition path_join :: "string \<Rightarrow> string \<Rightarrow> string" where
  \<comment> \<open>\<^verbatim>\<open>os.path.join(a, b)\<close> of posixpath, for two components.\<close>
  "path_join a b =
     (if startswith b ''/'' then b
      else if a = [] \<or> endswith a ''/'' then a @ b
      else a @ ''/'' @ b)"

section \<open>Configuration\<close>

text \<open>
  A value loaded from JSON. \<open>POther\<close> stands for a number, a boolean or null.
\<close>

datatype pyval =
    PStr string
  | PList "pyval list"
  | PDict "(string \<times> pyval) list"
  | POther

text \<open>
  The \<^verbatim>\<open>Config\<close> data class. The filter lists and the path fields have the types the
  class declares; \<open>block_comment\<close> is the dictionary of strings that
  \<^verbatim>\<open>get_language_syntax\<close> builds; \<open>inline_comment\<close> is kept as a dynamic value, as
  \<^verbatim>\<open>handle_file\<close> tests it with \<^verbatim>\<open>isinstance\<close>.
\<close>

record Config =
  skip_folders :: "string list"
  skip_files :: "string list"
  allowed_extensions :: "string list"
  block_comment :: "string \<rightharpoonup> string"
  inline_comment :: pyval
  root_path :: string
  project_dir :: string
  output_dir :: string
  output_filename :: string
  output_extension :: string
  project_language :: string

section \<open>The file system, events and exceptions\<close>

text \<open>
  What the traversal finds at a path. \<open>File ls failed\<close> is anything that is not a
  directory: iterating over it gives the lines \<open>ls\<close> in order, and then, when \<open>failed\<close>
  holds, an \<^verbatim>\<open>IOError\<close> (with \<open>ls = []\<close>: the file cannot be opened, or does not exist).
  \<open>Dir es\<close> is a directory whose listing succeeds with the entries \<open>es\<close>, in the order
  \<^verbatim>\<open>os.listdir\<close> returns them; \<open>Locked\<close> is a directory whose listing raises
  \<^verbatim>\<open>OSError\<close>. Read failures other than \<^verbatim>\<open>IOError\<close> (a file that does not decode) and
  the recursion limit of the interpreter are not part of the model.
\<close>

datatype node =
    File "string list" bool
  | Dir "(string \<times> node) list"
  | Locked

datatype log =
    ErrorAccessingDirectory string
  | ErrorReadingFile string
  | ErrorWritingFile string
  | ErrorLoadingJSON string
  | WarningUnknownLanguage string

text \<open>
  The exceptions that leave a function. A \<open>TypeError\<close> carries the name of the value whose
  type was rejected, a \<open>KeyError\<close> the missing key.
\<close>

datatype error =
    TypeError string
  | KeyError string
  | OSError

text \<open>
  A generator run to its end is the list of its events, in order, and the exception that
  ended it, if any.
\<close>

datatype event = Yield string | Log log

type_synonym gen = "event list \<times> error option"

definition gen_seq :: "gen \<Rightarrow> gen \<Rightarrow> gen" where
  \<comment> \<open>One generator after another: the second runs only when the first did not raise.\<close>
  "gen_seq g h =
     (case snd g of
        Some e \<Rightarrow> g
      | None \<Rightarrow> (fst g @ fst h, snd h))"

fun yields :: "event list \<Rightarrow> string list" where
  "yields [] = []"
| "yields (Yield s # es) = s # yields es"
| "yields (Log l # es) = yields es"

fun logs :: "event list \<Rightarrow> log list" where
  "logs [] = []"
| "logs (Yield s # es) = logs es"
| "logs (Log l # es) = l # logs es"

section \<open>FileMerger\<close>

definition go_to_next_file :: "Config \<Rightarrow> string \<Rightarrow> bool" where
  "go_to_next_file c file =
     (\<not> list_ex (\<lambda>ext. endswith file ext) (allowed_extensions c)
      \<or> file \<in> set (skip_files c))"

definition isdir :: "node \<Rightarrow> bool" where
  \<comment> \<open>\<^verbatim>\<open>os.path.isdir\<close>\<close>
  "isdir n = (case n of File ls failed \<Rightarrow> False | Dir es \<Rightarrow> True | Locked \<Rightarrow> True)"

definition read_file :: "string \<Rightarrow> node \<Rightarrow> string list \<times> log list" where
  \<comment> \<open>The lines the generator gives before it ends, and what it logs when it ends on an
      \<^verbatim>\<open>IOError\<close>. Opening a directory raises \<^verbatim>\<open>IsADirectoryError\<close>.\<close>
  "read_file new_file n =
     (case n of
        File ls failed \<Rightarrow> (ls, if failed then [ErrorReadingFile new_file] else [])
      | Dir es \<Rightarrow> ([], [ErrorReadingFile new_file])
      | Locked \<Rightarrow> ([], [ErrorReadingFile new_file]))"

definition header :: "string \<Rightarrow> string \<Rightarrow> string \<Rightarrow> string" where
  "header bopen new_file bclose =
     ''```'' @ [CHR 0x0A] @ bopen @ [CHR 0x0A] @ ''file: '' @ new_file @ [CHR 0x0A]
       @ bclose @ [CHR 0x0A]"

definition footer :: string where
  "footer = [CHR 0x0A] @ ''```'' @ [CHR 0x0A, CHR 0x0A]"

definition render_file :: "Config \<Rightarrow> string \<Rightarrow> node \<Rightarrow> gen" where
  \<comment> \<open>\<^verbatim>\<open>handle_file\<close> from the header on (lines 129 to 146). The list comprehension
      reads the whole file, so the log entry of a failed read comes before the first
      content line is yielded.\<close>
  "render_file c new_file n =
     (case block_comment c ''open'' of
        None \<Rightarrow> ([], Some (KeyError ''open''))
      | Some bopen \<Rightarrow>
         (case block_comment c ''close'' of
            None \<Rightarrow> ([], Some (KeyError ''close''))
          | Some bclose \<Rightarrow>
             gen_seq ([Yield (header bopen new_file bclose)], None)
               (case inline_comment c of
                  PStr marker \<Rightarrow>
                    (let (ls, lg) = read_file new_file n
                     in (map Log lg
                           @ map Yield (filter (\<lambda>l. \<not> startswith (lstrip l) marker) ls)
                           @ [Yield footer], None))
                | _ \<Rightarrow> ([], Some (TypeError ''inline_comment'')))))"

fun walk_directory :: "Config \<Rightarrow> string \<Rightarrow> string \<Rightarrow> node \<Rightarrow> gen"
  and walk_files :: "Config \<Rightarrow> string \<Rightarrow> (string \<times> node) list \<Rightarrow> gen"
  and handle_file :: "Config \<Rightarrow> string \<Rightarrow> string \<Rightarrow> node \<Rightarrow> gen"
where
  "walk_directory c path dir n =
     (let next_path = path_join path dir
      in case n of
           Dir files \<Rightarrow> walk_files c next_path files
         | _ \<Rightarrow> ([Log (ErrorAccessingDirectory next_path)], None))"
| "walk_files c next_path [] = ([], None)"
| "walk_files c next_path ((file, n) # files) =
     gen_seq (handle_file c next_path file n) (walk_files c next_path files)"
| "handle_file c path file n =
     (if file \<in> set (skip_folders c) then ([], None)
      else
        let new_file = path_join path file
        in gen_seq
             (if isdir n then walk_directory c path file n else ([], None))
             (if go_to_next_file c file then ([], None)
              else render_file c new_file n))"

section \<open>Writing the merged file\<close>

text \<open>
  The destination as \<^verbatim>\<open>start\<close> meets it: whether \<^verbatim>\<open>os.makedirs\<close> succeeds, whether the
  output file can be opened, how many calls of \<^verbatim>\<open>f.write\<close> succeed before one raises
  \<^verbatim>\<open>IOError\<close> (\<open>None\<close>: every call succeeds), and whether closing the file, which flushes
  what is buffered, succeeds. The output file is assumed to lie outside the tree that is
  walked.
\<close>

record out_env =
  makedirs_ok :: bool
  open_ok :: bool
  write_limit :: "nat option"
  close_ok :: bool

text \<open>
  What a run leaves behind: the strings that \<^verbatim>\<open>f.write\<close> has taken, in order (\<open>None\<close> when
  the file was never opened; what reaches the disk when a write or the close fails is not
  modelled), the log, and the exception that ended the run, if any.
\<close>

record outcome =
  written :: "string list option"
  logged :: "log list"
  raised :: "error option"

fun write_lines :: "event list \<Rightarrow> nat option \<Rightarrow> string list \<times> log list \<times> bool" where
  \<comment> \<open>The loop \<^verbatim>\<open>for line in lines: f.write(line)\<close> over a lazy generator: the events
      up to the first failing write happen, the rest never does. The last component
      tells whether a write failed.\<close>
  "write_lines [] limit = ([], [], False)"
| "write_lines (Log l # es) limit =
     (let (w, lg, failed) = write_lines es limit in (w, l # lg, failed))"
| "write_lines (Yield s # es) limit =
     (case limit of
        None \<Rightarrow> (let (w, lg, failed) = write_lines es None in (s # w, lg, failed))
      | Some k \<Rightarrow>
         (case k of
            0 \<Rightarrow> ([], [], True)
          | Suc k' \<Rightarrow> (let (w, lg, failed) = write_lines es (Some k') in (s # w, lg, failed))))"

definition write_out :: "out_env \<Rightarrow> string \<Rightarrow> gen \<Rightarrow> outcome" where
  \<comment> \<open>The \<^verbatim>\<open>try\<close> block of \<^verbatim>\<open>start\<close> (lines 77 to 82). The \<^verbatim>\<open>with\<close> statement closes the file
      on every way out: an \<^verbatim>\<open>IOError\<close> of the close is caught and logged like one of a
      write, also when it comes while an exception of the generator is on its way, which
      it then replaces.\<close>
  "write_out env output_path lines =
     (if \<not> open_ok env
      then \<lparr>written = None, logged = [ErrorWritingFile output_path], raised = None\<rparr>
      else
        let (w, lg, failed) = write_lines (fst lines) (write_limit env)
        in if failed \<or> \<not> close_ok env
           then \<lparr>written = Some w, logged = lg @ [ErrorWritingFile output_path],
                  raised = None\<rparr>
           else \<lparr>written = Some w, logged = lg, raised = snd lines\<rparr>)"

definition start :: "Config \<Rightarrow> out_env \<Rightarrow> node \<Rightarrow> outcome" where
  \<comment> \<open>\<open>root\<close> is what lies at \<^verbatim>\<open>os.path.join(root_path, project_dir)\<close>.\<close>
  "start c env root =
     (if \<not> makedirs_ok env then \<lparr>written = None, logged = [], raised = Some OSError\<rparr>
      else
        let output_file = output_filename c @ ''.'' @ output_extension c;
            output_path = path_join (output_dir c) output_file;
            lines = walk_directory c (root_path c) (project_dir c) root
        in write_out env output_path lines)"

section \<open>Loading the configuration\<close>

definition load_json :: "string \<Rightarrow> pyval option \<Rightarrow> pyval \<times> log list" where
  \<comment> \<open>The second argument is the JSON value in the file, \<open>None\<close> when the file cannot be
      opened or does not parse.\<close>
  "load_json file_path content =
     (case content of
        Some v \<Rightarrow> (v, [])
      | None \<Rightarrow> (PDict [], [ErrorLoadingJSON file_path]))"

definition lower_char :: "char \<Rightarrow> char" where
  "lower_char ch =
     (let n = (of_char ch :: nat)
      in if (65 \<le> n \<and> n \<le> 90) \<or> (192 \<le> n \<and> n \<le> 222 \<and> n \<noteq> 215)
         then char_of (n + 32) else ch)"

definition lower :: "string \<Rightarrow> string" where
  \<comment> \<open>\<^verbatim>\<open>s.lower()\<close>\<close>
  "lower s = map lower_char s"

definition get_language_syntax :: "string \<Rightarrow> ((string \<rightharpoonup> string) \<times> string) \<times> log list" where
  \<comment> \<open>The block comment dictionary and the inline comment marker, and the warning.\<close>
  "get_language_syntax lang =
     (let l = lower lang
      in if l = ''python'' \<or> l = ''py''
         then ((  [''open'' \<mapsto> [CHR 0x22, CHR 0x22, CHR 0x22],
                   ''close'' \<mapsto> [CHR 0x22, CHR 0x22, CHR 0x22]], ''#''), [])
         else if l = ''javascript'' \<or> l = ''js''
         then (([''open'' \<mapsto> ''/*'', ''close'' \<mapsto> ''*/''], ''//''), [])
         else (([''open'' \<mapsto> ''/*'', ''close'' \<mapsto> ''*/''], ''//''),
               [WarningUnknownLanguage lang]))"

section \<open>Unchecked configuration values\<close>

text \<open>
  \<^verbatim>\<open>Config(**data)\<close> stores whatever it is given, and \<^verbatim>\<open>FileMerger\<close> copies it: a value
  loaded from a configuration file reaches the walk as it is. The record below is the
  merger on such values; the functions that follow are the walk on it. On values of the
  declared types they are the functions above (lemmas \<open>raw_walk_typed\<close> and
  \<open>raw_start_typed\<close>). The block comment dictionary and the inline comment marker always
  come from \<^verbatim>\<open>get_language_syntax\<close> in a run, and keep their types.
\<close>

record raw_config =
  raw_skip_folders :: pyval
  raw_skip_files :: pyval
  raw_allowed_extensions :: pyval
  raw_block_comment :: "string \<rightharpoonup> string"
  raw_inline_comment :: pyval
  raw_root_path :: pyval
  raw_project_dir :: pyval
  raw_output_dir :: pyval
  raw_output_filename :: pyval
  raw_output_extension :: pyval

fun py_in :: "string \<Rightarrow> string \<Rightarrow> pyval \<Rightarrow> error + bool" where
  \<comment> \<open>\<^verbatim>\<open>s in v\<close>, for the attribute named \<open>attr\<close>: membership in a list, a key of a
      dictionary, a substring of a string; anything else is not iterable.\<close>
  "py_in attr s (PList vs) = Inr (PStr s \<in> set vs)"
| "py_in attr s (PDict kvs) = Inr (s \<in> set (map fst kvs))"
| "py_in attr s (PStr t) = Inr (sublist s t)"
| "py_in attr s POther = Inl (TypeError attr)"

fun py_iter :: "string \<Rightarrow> pyval \<Rightarrow> error + pyval list" where
  \<comment> \<open>What iterating over \<open>v\<close> gives: the elements of a list, the keys of a dictionary,
      the characters of a string.\<close>
  "py_iter attr (PList vs) = Inr vs"
| "py_iter attr (PDict kvs) = Inr (map (\<lambda>kv. PStr (fst kv)) kvs)"
| "py_iter attr (PStr t) = Inr (map (\<lambda>ch. PStr [ch]) t)"
| "py_iter attr POther = Inl (TypeError attr)"

fun any_endswith :: "string \<Rightarrow> pyval list \<Rightarrow> error + bool" where
  \<comment> \<open>\<^verbatim>\<open>any(file.endswith(ext) for ext in exts)\<close>: it stops at the first match, and
      \<^verbatim>\<open>endswith\<close> raises on an argument that is not a string.\<close>
  "any_endswith s [] = Inr False"
| "any_endswith s (PStr e # vs) = (if endswith s e then Inr True else any_endswith s vs)"
| "any_endswith s (v # vs) = Inl (TypeError ''allowed_extensions'')"

definition raw_go_to_next_file :: "raw_config \<Rightarrow> string \<Rightarrow> error + bool" where
  "raw_go_to_next_file u file =
     (case py_iter ''allowed_extensions'' (raw_allowed_extensions u) of
        Inl e \<Rightarrow> Inl e
      | Inr exts \<Rightarrow>
         (case any_endswith file exts of
            Inl e \<Rightarrow> Inl e
          | Inr found \<Rightarrow>
             if \<not> found then Inr True else py_in ''skip_files'' file (raw_skip_files u)))"

definition comment_syntax :: "raw_config \<Rightarrow> Config" where
  \<comment> \<open>The two attributes that \<open>render_file\<close> reads, as a \<open>Config\<close>.\<close>
  "comment_syntax u =
     \<lparr>skip_folders = [], skip_files = [], allowed_extensions = [],
      block_comment = raw_block_comment u, inline_comment = raw_inline_comment u,
      root_path = [], project_dir = [], output_dir = [], output_filename = [],
      output_extension = [], project_language = []\<rparr>"

fun raw_walk_directory :: "raw_config \<Rightarrow> string \<Rightarrow> string \<Rightarrow> node \<Rightarrow> gen"
  and raw_walk_files :: "raw_config \<Rightarrow> string \<Rightarrow> (string \<times> node) list \<Rightarrow> gen"
  and raw_handle_file :: "raw_config \<Rightarrow> string \<Rightarrow> string \<Rightarrow> node \<Rightarrow> gen"
where
  "raw_walk_directory u path dir n =
     (let next_path = path_join path dir
      in case n of
           Dir files \<Rightarrow> raw_walk_files u next_path files
         | _ \<Rightarrow> ([Log (ErrorAccessingDirectory next_path)], None))"
| "raw_walk_files u next_path [] = ([], None)"
| "raw_walk_files u next_path ((file, n) # files) =
     gen_seq (raw_handle_file u next_path file n) (raw_walk_files u next_path files)"
| "raw_handle_file u path file n =
     (case py_in ''skip_folders'' file (raw_skip_folders u) of
        Inl e \<Rightarrow> ([], Some e)
      | Inr skipped \<Rightarrow>
         if skipped then ([], None)
         else
           let new_file = path_join path file
           in gen_seq
                (if isdir n then raw_walk_directory u path file n else ([], None))
                (case raw_go_to_next_file u file of
                   Inl e \<Rightarrow> ([], Some e)
                 | Inr next \<Rightarrow>
                    if next then ([], None)
                    else render_file (comment_syntax u) new_file n))"

definition py_format :: "(pyval \<Rightarrow> string) \<Rightarrow> pyval \<Rightarrow> string" where
  \<comment> \<open>A value in an f-string: a string as it is, anything else as \<^verbatim>\<open>str\<close> prints it.
      That function of the interpreter is a parameter, \<open>str_of\<close>.\<close>
  "py_format str_of v = (case v of PStr s \<Rightarrow> s | _ \<Rightarrow> str_of v)"

definition raw_start :: "raw_config \<Rightarrow> (pyval \<Rightarrow> string) \<Rightarrow> out_env \<Rightarrow> node \<Rightarrow> outcome" where
  \<comment> \<open>\<^verbatim>\<open>start\<close> on unchecked values: \<^verbatim>\<open>os.makedirs\<close> and \<^verbatim>\<open>os.path.join\<close> raise
      \<^verbatim>\<open>TypeError\<close> on a path that is not a string, the latter when the generator is
      first asked for a line, after the output file has been opened.\<close>
  "raw_start u str_of env root =
     (case raw_output_dir u of
        PStr od \<Rightarrow>
          if \<not> makedirs_ok env then \<lparr>written = None, logged = [], raised = Some OSError\<rparr>
          else
            let output_file = py_format str_of (raw_output_filename u) @ ''.''
                                @ py_format str_of (raw_output_extension u);
                output_path = path_join od output_file;
                lines =
                  (case raw_root_path u of
                     PStr rp \<Rightarrow>
                       (case raw_project_dir u of
                          PStr pd \<Rightarrow> raw_walk_directory u rp pd root
                        | _ \<Rightarrow> ([], Some (TypeError ''project_dir'')))
                   | _ \<Rightarrow> ([], Some (TypeError ''root_path'')))
            in write_out env output_path lines
      | _ \<Rightarrow> \<lparr>written = None, logged = [], raised = Some (TypeError ''output_dir'')\<rparr>)"

definition raw_of :: "Config \<Rightarrow> raw_config" where
  \<comment> \<open>A configuration of the declared types, as the values Python holds.\<close>
  "raw_of c =
     \<lparr>raw_skip_folders = PList (map PStr (skip_folders c)),
      raw_skip_files = PList (map PStr (skip_files c)),
      raw_allowed_extensions = PList (map PStr (allowed_extensions c)),
      raw_block_comment = block_comment c,
      raw_inline_comment = inline_comment c,
      raw_root_path = PStr (root_path c),
      raw_project_dir = PStr (project_dir c),
      raw_output_dir = PStr (output_dir c),
      raw_output_filename = PStr (output_filename c),
      raw_output_extension = PStr (output_extension c)\<rparr>"

section \<open>The entry point\<close>

definition config_fields :: "string list" where
  "config_fields =
     [''skip_folders'', ''skip_files'', ''allowed_extensions'', ''block_comment'',
      ''inline_comment'', ''root_path'', ''project_dir'', ''output_dir'',
      ''output_filename'', ''output_extension'', ''project_language'']"

definition field_value :: "(string \<times> pyval) list \<Rightarrow> string \<Rightarrow> pyval \<Rightarrow> pyval" where
  \<comment> \<open>The value of a field, or its default when the key is absent.\<close>
  "field_value d k dflt = (case map_of d k of None \<Rightarrow> dflt | Some v \<Rightarrow> v)"

definition unpack_dict_to_dataclass ::
  "(string \<times> pyval) list \<Rightarrow> (string \<rightharpoonup> string) \<Rightarrow> string \<Rightarrow> error + raw_config" where
  \<comment> \<open>The dictionary holds the filters and the entries of the project configuration;
      the two values of \<^verbatim>\<open>get_language_syntax\<close>, which \<^verbatim>\<open>run\<close> stores last, are passed
      apart. A key that is no field of \<^verbatim>\<open>Config\<close> is a \<^verbatim>\<open>TypeError\<close>; no value is
      checked. The result holds the fields that \<^verbatim>\<open>FileMerger\<close> copies.\<close>
  "unpack_dict_to_dataclass d bc ic =
     (case find (\<lambda>k. k \<notin> set config_fields) (map fst d) of
        Some k \<Rightarrow> Inl (TypeError k)
      | None \<Rightarrow>
         Inr \<lparr>raw_skip_folders = field_value d ''skip_folders'' (PList []),
              raw_skip_files = field_value d ''skip_files'' (PList []),
              raw_allowed_extensions = field_value d ''allowed_extensions'' (PList []),
              raw_block_comment = bc,
              raw_inline_comment = PStr ic,
              raw_root_path = field_value d ''root_path'' (PStr []),
              raw_project_dir = field_value d ''project_dir'' (PStr []),
              raw_output_dir = field_value d ''output_dir'' (PStr []),
              raw_output_filename = field_value d ''output_filename'' (PStr []),
              raw_output_extension = field_value d ''output_extension'' (PStr [])\<rparr>)"

text \<open>The four configuration files, as \<^verbatim>\<open>load_json\<close> finds them.\<close>

record config_files =
  skip_folders_json :: "pyval option"
  skip_files_json :: "pyval option"
  allowed_extensions_json :: "pyval option"
  project_config_json :: "pyval option"

definition dict_update :: "(string \<times> pyval) list \<Rightarrow> (string \<times> pyval) list \<Rightarrow> (string \<times> pyval) list" where
  \<comment> \<open>\<^verbatim>\<open>d.update(e)\<close> on dictionaries kept as association lists.\<close>
  "dict_update d e = foldl (\<lambda>acc (k, v). AList.update k v acc) d e"

definition run :: "config_files \<Rightarrow> (pyval \<Rightarrow> string) \<Rightarrow> out_env \<Rightarrow> node \<Rightarrow> outcome" where
  \<comment> \<open>\<open>root\<close> is what lies at the project directory; \<open>str_of\<close> is \<^verbatim>\<open>str\<close>.\<close>
  "run cf str_of env root =
     (let (sfo, l1) = load_json ''config/skip_folders.json'' (skip_folders_json cf);
          (sfi, l2) = load_json ''config/skip_files.json'' (skip_files_json cf);
          (ae, l3) = load_json ''config/allowed_extensions.json'' (allowed_extensions_json cf);
          (project_config, l4) = load_json ''config/project_config.json'' (project_config_json cf);
          config_data = [(''skip_folders'', sfo), (''skip_files'', sfi),
                         (''allowed_extensions'', ae)];
          lg = l1 @ l2 @ l3 @ l4
      in case project_config of
           PDict pc \<Rightarrow>
             (case map_of pc ''project_language'' of
                None \<Rightarrow>
                  \<lparr>written = None, logged = lg, raised = Some (KeyError ''project_language'')\<rparr>
              | Some (PStr language) \<Rightarrow>
                  (let ((bc, ic), l5) = get_language_syntax language
                   in case unpack_dict_to_dataclass (dict_update config_data pc) bc ic of
                        Inl e \<Rightarrow> \<lparr>written = None, logged = lg @ l5, raised = Some e\<rparr>
                      | Inr typed_config \<Rightarrow>
                          (let r = raw_start typed_config str_of env root
                           in r\<lparr>logged := lg @ l5 @ logged r\<rparr>))
              | Some _ \<Rightarrow>
                  \<lparr>written = None, logged = lg, raised = Some (TypeError ''project_language'')\<rparr>)
         | _ \<Rightarrow> \<lparr>written = None, logged = lg, raised = Some (TypeError ''project_config'')\<rparr>)"

section \<open>The traversal, as a list of entries\<close>

text \<open>
  An entry of the tree: the names of the directories above it, below the root of the
  walk; the path of the directory that lists it; its name; and what lies there.
\<close>

type_synonym entry = "string list \<times> string \<times> string \<times> node"

text \<open>
  Every entry below a listing, depth first in listing order: the entries below a
  directory come before the directory itself, and both before its next sibling.
\<close>

fun tree_entries :: "string \<Rightarrow> string list \<Rightarrow> (string \<times> node) list \<Rightarrow> entry list" where
  "tree_entries p anc [] = []"
| "tree_entries p anc ((name, n) # es) =
     (case n of
        Dir sub \<Rightarrow> tree_entries (path_join p name) (anc @ [name]) sub
      | _ \<Rightarrow> [])
     @ (anc, p, name, n) # tree_entries p anc es"

definition claimed_included :: "Config \<Rightarrow> entry \<Rightarrow> bool" where
  \<comment> \<open>Inclusion in the words of the specification: a file, whose name ends with an
      allowed extension and is not in \<open>skip_files\<close>, with no ancestor directory in
      \<open>skip_folders\<close>.\<close>
  "claimed_included c e =
     (case e of (anc, p, name, n) \<Rightarrow>
        \<not> isdir n
        \<and> list_ex (\<lambda>ext. endswith name ext) (allowed_extensions c)
        \<and> name \<notin> set (skip_files c)
        \<and> set anc \<inter> set (skip_folders c) = {})"

definition included :: "Config \<Rightarrow> entry \<Rightarrow> bool" where
  \<comment> \<open>Inclusion as the walk decides it, for a file or a directory: the name of the
      entry itself must not be in \<open>skip_folders\<close> either.\<close>
  "included c e =
     (case e of (anc, p, name, n) \<Rightarrow>
        list_ex (\<lambda>ext. endswith name ext) (allowed_extensions c)
        \<and> name \<notin> set (skip_files c)
        \<and> name \<notin> set (skip_folders c)
        \<and> set anc \<inter> set (skip_folders c) = {})"

definition file_block :: "string \<Rightarrow> string \<Rightarrow> string \<Rightarrow> entry \<Rightarrow> string list" where
  \<comment> \<open>The strings one entry contributes: header, the lines that were read and are
      kept, footer.\<close>
  "file_block bopen bclose marker e =
     (case e of (anc, p, name, n) \<Rightarrow>
        header bopen (path_join p name) bclose
          # filter (\<lambda>l. \<not> startswith (lstrip l) marker) (fst (read_file (path_join p name) n))
          @ [footer])"

section \<open>An example configuration\<close>

definition example_config :: Config where
  "example_config =
     \<lparr>skip_folders = [''skip''], skip_files = [''setup.py''], allowed_extensions = [''.py''],
      block_comment = [''open'' \<mapsto> ''/*'', ''close'' \<mapsto> ''*/''],
      inline_comment = PStr ''#'',
      root_path = ''root'', project_dir = ''proj'', output_dir = ''out'',
      output_filename = ''merged'', output_extension = ''md'', project_language = ''c''\<rparr>"

definition example_env :: out_env where
  "example_env = \<lparr>makedirs_ok = True, open_ok = True, write_limit = None, close_ok = True\<rparr>"

definition example_tree :: "(string \<times> node) list" where
  "example_tree =
     [(''a.py'', File [''x = 1\<newline>'', ''# comment\<newline>''] False),
      (''skip'', Dir [(''b.py'', File [''y = 2\<newline>''] False)]),
      (''pkg'', Dir [(''c.py'', File [''  # indented\<newline>'', ''z = 3  # kept\<newline>''] False)]),
      (''c.txt'', File [''text\<newline>''] False),
      (''setup.py'', File [''s = 0\<newline>''] False)]"



text \<open>
  How a walk ends when the inline comment marker is not a string, given the included
  entries in the order of the walk: with none, without a yield and without an exception;
  otherwise with the header of the first one, and nothing else, and the \<^verbatim>\<open>TypeError\<close> of
  \<^verbatim>\<open>handle_file\<close>.
\<close>

fun stops_at :: "string \<Rightarrow> string \<Rightarrow> gen \<Rightarrow> entry list \<Rightarrow> bool" where
  "stops_at bopen bclose g [] = (snd g = None \<and> yields (fst g) = [])"
| "stops_at bopen bclose g ((anc, p, name, n) # es) =
     (snd g = Some (TypeError ''inline_comment'')
      \<and> yields (fst g) = [header bopen (path_join p name) bclose])"


text \<open>The configuration files of a small Python project.\<close>

definition scenario_files :: config_files where
  "scenario_files =
     \<lparr>skip_folders_json = Some (PList [PStr ''skip'']), skip_files_json = None,
      allowed_extensions_json = Some (PList [PStr ''.py'']),
      project_config_json =
        Some (PDict [(''project_language'', PStr ''Python''), (''root_path'', PStr ''root''),
                     (''project_dir'', PStr ''proj''), (''output_dir'', PStr ''out''),
                     (''output_filename'', PStr ''merged''), (''output_extension'', PStr ''md'')])\<rparr>"

text \<open>Configuration files whose project configuration has the wrong shape.\<close>

definition not_a_dict_files :: config_files where
  "not_a_dict_files =
     \<lparr>skip_folders_json = Some (PList [PStr ''skip'']), skip_files_json = None,
      allowed_extensions_json = Some (PList [PStr ''.py'']),
      project_config_json = Some (PList [])\<rparr>"

definition not_a_str_files :: config_files where
  "not_a_str_files =
     \<lparr>skip_folders_json = Some (PList [PStr ''skip'']), skip_files_json = None,
      allowed_extensions_json = Some (PList [PStr ''.py'']),
      project_config_json = Some (PDict [(''project_language'', POther)])\<rparr>"

section \<open>Sequencing and the event projections\<close>

lemma gen_seq_None [simp]: "gen_seq (es, None) h = (es @ fst h, snd h)"
  by (simp add: gen_seq_def)

lemma gen_seq_Some [simp]: "gen_seq (es, Some e) h = (es, Some e)"
  by (simp add: gen_seq_def)

lemma fst_gen_seq: "snd g = None \<Longrightarrow> fst (gen_seq g h) = fst g @ fst h"
  by (simp add: gen_seq_def)

lemma snd_gen_seq: "snd g = None \<Longrightarrow> snd (gen_seq g h) = snd h"
  by (simp add: gen_seq_def)

lemma gen_seq_assoc: "gen_seq (gen_seq f g) h = gen_seq f (gen_seq g h)"
  by (cases f; cases g; cases h) (auto simp: gen_seq_def split: option.splits)

lemma gen_seq_empty [simp]: "gen_seq g ([], None) = g"
  by (cases g) (auto simp: gen_seq_def split: option.splits)

lemma yields_append [simp]: "yields (xs @ ys) = yields xs @ yields ys"
  by (induction xs rule: yields.induct) auto

lemma logs_append [simp]: "logs (xs @ ys) = logs xs @ logs ys"
  by (induction xs rule: logs.induct) auto

lemma yields_map_Yield [simp]: "yields (map Yield xs) = xs"
  by (induction xs) auto

lemma yields_map_Log [simp]: "yields (map Log xs) = []"
  by (induction xs) auto

lemma logs_map_Log [simp]: "logs (map Log xs) = xs"
  by (induction xs) auto

lemma logs_map_Yield [simp]: "logs (map Yield xs) = []"
  by (induction xs) auto

section \<open>Unfolding the walk\<close>

lemma walk_files_append:
  "walk_files c p (xs @ ys) = gen_seq (walk_files c p xs) (walk_files c p ys)"
  by (induction xs) (auto simp: gen_seq_assoc)

lemma handle_file_skipped:
  "name \<in> set (skip_folders c) \<Longrightarrow> handle_file c path name n = ([], None)"
  by simp

lemma handle_file_unskipped:
  "name \<notin> set (skip_folders c) \<Longrightarrow>
     handle_file c path name n =
       gen_seq (if isdir n then walk_directory c path name n else ([], None))
         (if go_to_next_file c name then ([], None)
          else render_file c (path_join path name) n)"
  by (simp del: walk_directory.simps)

lemma walk_directory_Dir:
  "walk_directory c path dir (Dir sub) = walk_files c (path_join path dir) sub"
  by simp

lemma walk_directory_File:
  "walk_directory c path dir (File ls failed) =
     ([Log (ErrorAccessingDirectory (path_join path dir))], None)"
  by simp

lemma walk_directory_Locked:
  "walk_directory c path dir Locked =
     ([Log (ErrorAccessingDirectory (path_join path dir))], None)"
  by simp

declare handle_file.simps [simp del] walk_directory.simps [simp del]

section \<open>The walk raises nothing under a well-formed syntax\<close>

lemma render_file_str:
  assumes "inline_comment c = PStr marker"
    and "block_comment c ''open'' = Some bopen"
    and "block_comment c ''close'' = Some bclose"
  shows "render_file c new_file n =
           (Yield (header bopen new_file bclose)
              # map Log (snd (read_file new_file n))
              @ map Yield (filter (\<lambda>l. \<not> startswith (lstrip l) marker) (fst (read_file new_file n)))
              @ [Yield footer], None)"
  using assms by (simp add: render_file_def split: prod.splits)

lemma walk_no_exception:
  assumes "inline_comment c = PStr marker"
    and "block_comment c ''open'' = Some bopen"
    and "block_comment c ''close'' = Some bclose"
  shows "snd (walk_directory c path dir n) = None"
    and "snd (walk_files c next_path files) = None"
    and "snd (handle_file c path name n) = None"
  using assms
proof (induction c path dir n and c next_path files and c path name n
    rule: walk_directory_walk_files_handle_file.induct)
  case (1 c path dir n)
  then show ?case
    by (cases n) (simp_all add: walk_directory_Dir walk_directory_File walk_directory_Locked)
next
  case (2 c next_path)
  then show ?case by simp
next
  case (3 c next_path name n files)
  then show ?case by (simp add: snd_gen_seq)
next
  case (4 c path name n)
  show ?case
  proof (cases "name \<in> set (skip_folders c)")
    case True
    then show ?thesis by (simp add: handle_file_skipped)
  next
    case False
    with "4.IH" "4.prems"
    have "snd (if isdir n then walk_directory c path name n else ([], None)) = None"
      by simp
    with False "4.prems" show ?thesis
      by (simp add: handle_file_unskipped snd_gen_seq render_file_str)
  qed
qed

lemma walk_no_extensions:
  assumes "allowed_extensions c = []"
  shows "walk_directory c path dir n = (map Log (logs (fst (walk_directory c path dir n))), None)"
    and "walk_files c next_path files = (map Log (logs (fst (walk_files c next_path files))), None)"
    and "handle_file c path name n = (map Log (logs (fst (handle_file c path name n))), None)"
  using assms
proof (induction c path dir n and c next_path files and c path name n
    rule: walk_directory_walk_files_handle_file.induct)
  case (1 c path dir n)
  then show ?case
    by (cases n) (simp_all add: walk_directory_Dir walk_directory_File walk_directory_Locked)
next
  case (2 c next_path)
  then show ?case by simp
next
  case (3 c next_path name n files)
  from "3.IH" "3.prems"
  obtain a b where a: "handle_file c next_path name n = (map Log a, None)"
    and b: "walk_files c next_path files = (map Log b, None)"
    by blast
  show ?case by (simp add: a b)
next
  case (4 c path name n)
  show ?case
  proof (cases "name \<in> set (skip_folders c)")
    case True
    then show ?thesis by (simp add: handle_file_skipped)
  next
    case False
    have g: "go_to_next_file c name"
      using "4.prems" by (simp add: go_to_next_file_def)
    show ?thesis
    proof (cases "isdir n")
      case True
      with "4.IH" [OF False refl True "4.prems"] False g show ?thesis
        by (simp add: handle_file_unskipped)
    next
      case False
      with \<open>name \<notin> set (skip_folders c)\<close> g show ?thesis
        by (simp add: handle_file_unskipped)
    qed
  qed
qed

section \<open>The walk yields the blocks of the included entries\<close>

lemma tree_entries_append:
  "tree_entries p anc (xs @ ys) = tree_entries p anc xs @ tree_entries p anc ys"
  by (induction xs) (auto split: node.splits)

lemma tree_entries_ancestors:
  "e \<in> set (tree_entries p anc es) \<Longrightarrow> set anc \<subseteq> set (fst e)"
proof (induction p anc es arbitrary: e rule: tree_entries.induct)
  case (1 p anc)
  then show ?case by simp
next
  case (2 p anc name n es)
  from "2.prems" consider
      (sub) sub where "n = Dir sub"
        "e \<in> set (tree_entries (path_join p name) (anc @ [name]) sub)"
    | (own) "e = (anc, p, name, n)"
    | (rest) "e \<in> set (tree_entries p anc es)"
    by (cases n) auto
  then show ?case
  proof cases
    case sub
    from "2.IH"(1) [OF sub] show ?thesis by simp
  next
    case own
    then show ?thesis by simp
  next
    case rest
    from "2.IH"(2) [OF rest] show ?thesis .
  qed
qed

lemma filter_included_skipped:
  assumes "name \<in> set (skip_folders c)"
  shows "filter (included c) (tree_entries p (anc @ [name]) es) = []"
proof -
  have "\<not> included c e" if "e \<in> set (tree_entries p (anc @ [name]) es)" for e
  proof -
    from tree_entries_ancestors [OF that] have "name \<in> set (fst e)" by auto
    with assms show ?thesis by (auto simp: included_def split: prod.splits)
  qed
  then show ?thesis by (simp add: filter_empty_conv)
qed

lemma walk_yields_blocks:
  assumes "inline_comment c = PStr marker"
    and "block_comment c ''open'' = Some bopen"
    and "block_comment c ''close'' = Some bclose"
  shows "\<forall>anc sub. set anc \<inter> set (skip_folders c) = {} \<longrightarrow> dir \<notin> set (skip_folders c) \<longrightarrow> n = Dir sub \<longrightarrow>
           yields (fst (walk_directory c path dir n)) =
             concat (map (file_block bopen bclose marker)
               (filter (included c) (tree_entries (path_join path dir) (anc @ [dir]) sub)))"
    and "\<forall>anc. set anc \<inter> set (skip_folders c) = {} \<longrightarrow>
           yields (fst (walk_files c next_path files)) =
             concat (map (file_block bopen bclose marker)
               (filter (included c) (tree_entries next_path anc files)))"
    and "\<forall>anc. set anc \<inter> set (skip_folders c) = {} \<longrightarrow>
           yields (fst (handle_file c path name n)) =
             concat (map (file_block bopen bclose marker)
               (filter (included c) (tree_entries path anc [(name, n)])))"
  using assms
proof (induction c path dir n and c next_path files and c path name n
    rule: walk_directory_walk_files_handle_file.induct)
  case (1 c path dir n)
  show ?case
  proof (intro allI impI)
    fix anc sub
    assume anc: "set anc \<inter> set (skip_folders c) = {}"
      and dir: "dir \<notin> set (skip_folders c)" and n: "n = Dir sub"
    from anc dir have "set (anc @ [dir]) \<inter> set (skip_folders c) = {}" by simp
    with "1.IH" [OF refl n "1.prems"] n walk_directory_Dir
    show "yields (fst (walk_directory c path dir n)) =
             concat (map (file_block bopen bclose marker)
               (filter (included c) (tree_entries (path_join path dir) (anc @ [dir]) sub)))"
      by simp
  qed
next
  case (2 c next_path)
  then show ?case by simp
next
  case (3 c next_path name n files)
  have ne: "snd (handle_file c next_path name n) = None"
    using walk_no_exception(3) [OF "3.prems"] .
  have cut: "tree_entries next_path anc ((name, n) # files) =
      tree_entries next_path anc [(name, n)] @ tree_entries next_path anc files" for anc
    using tree_entries_append [of next_path anc "[(name, n)]" files] by simp
  show ?case
  proof (intro allI impI)
    fix anc
    assume anc: "set anc \<inter> set (skip_folders c) = {}"
    have "yields (fst (walk_files c next_path ((name, n) # files))) =
        yields (fst (handle_file c next_path name n)) @ yields (fst (walk_files c next_path files))"
      by (simp add: fst_gen_seq [OF ne])
    also have "\<dots> = concat (map (file_block bopen bclose marker)
               (filter (included c) (tree_entries next_path anc [(name, n)])))
        @ concat (map (file_block bopen bclose marker)
               (filter (included c) (tree_entries next_path anc files)))"
    proof -
      from "3.IH" "3.prems" have h: "\<forall>anc. set anc \<inter> set (skip_folders c) = {} \<longrightarrow>
           yields (fst (handle_file c next_path name n)) =
             concat (map (file_block bopen bclose marker)
               (filter (included c) (tree_entries next_path anc [(name, n)])))"
        and w: "\<forall>anc. set anc \<inter> set (skip_folders c) = {} \<longrightarrow>
           yields (fst (walk_files c next_path files)) =
             concat (map (file_block bopen bclose marker)
               (filter (included c) (tree_entries next_path anc files)))"
        by - (assumption+)
      from h [rule_format, OF anc] w [rule_format, OF anc] show ?thesis
        by (simp only:)
    qed
    finally show "yields (fst (walk_files c next_path ((name, n) # files))) =
        concat (map (file_block bopen bclose marker)
          (filter (included c) (tree_entries next_path anc ((name, n) # files))))"
      by (simp only: cut filter_append map_append concat_append)
  qed
next
  case (4 c path name n)
  show ?case
  proof (intro allI impI)
    fix anc
    assume anc: "set anc \<inter> set (skip_folders c) = {}"
    show "yields (fst (handle_file c path name n)) =
             concat (map (file_block bopen bclose marker)
               (filter (included c) (tree_entries path anc [(name, n)])))"
    proof (cases "name \<in> set (skip_folders c)")
      case True
      then have "\<not> included c (anc, path, name, n)"
        by (simp add: included_def)
      with True show ?thesis
        by (cases n) (simp_all add: handle_file_skipped filter_included_skipped)
    next
      case False
      have own: "included c (anc, path, name, n) = (\<not> go_to_next_file c name)"
        using False anc by (simp add: included_def go_to_next_file_def)
      have ne: "snd (if isdir n then walk_directory c path name n else ([], None)) = None"
        using walk_no_exception(1) [OF "4.prems", of path name n] by simp
      have rec: "yields (fst (if isdir n then walk_directory c path name n else ([], None))) =
          concat (map (file_block bopen bclose marker) (filter (included c)
            (case n of Dir sub \<Rightarrow> tree_entries (path_join path name) (anc @ [name]) sub
             | _ \<Rightarrow> [])))"
      proof (cases n)
        case (Dir sub)
        then have d: "isdir n" by (simp add: isdir_def)
        from "4.IH" [OF False refl d "4.prems", rule_format, OF anc False Dir]
        show ?thesis
          using Dir by (simp add: isdir_def)
      next
        case (File ls failed)
        then show ?thesis by (simp add: isdir_def)
      next
        case Locked
        then show ?thesis by (simp add: isdir_def walk_directory_Locked)
      qed
      have "yields (fst (handle_file c path name n)) =
          yields (fst (if isdir n then walk_directory c path name n else ([], None)))
          @ yields (fst (if go_to_next_file c name then ([], None)
                         else render_file c (path_join path name) n))"
        by (simp only: handle_file_unskipped [OF False] fst_gen_seq [OF ne] yields_append)
      also have "yields (fst (if go_to_next_file c name then ([], None)
                         else render_file c (path_join path name) n)) =
          concat (map (file_block bopen bclose marker)
            (filter (included c) [(anc, path, name, n)]))"
        using own "4.prems" by (simp add: render_file_str file_block_def)
      finally have "yields (fst (handle_file c path name n)) =
          concat (map (file_block bopen bclose marker) (filter (included c)
            (case n of Dir sub \<Rightarrow> tree_entries (path_join path name) (anc @ [name]) sub
             | _ \<Rightarrow> [])))
          @ concat (map (file_block bopen bclose marker)
              (filter (included c) [(anc, path, name, n)]))"
        by (simp only: rec)
      moreover have "tree_entries path anc [(name, n)] =
          (case n of Dir sub \<Rightarrow> tree_entries (path_join path name) (anc @ [name]) sub
           | _ \<Rightarrow> []) @ [(anc, path, name, n)]"
        by simp
      ultimately show ?thesis
        by (simp only: filter_append map_append concat_append)
    qed
  qed
qed

section \<open>Single entries\<close>

lemmas example_eval =
  example_config_def example_env_def isdir_def go_to_next_file_def path_join_def
  startswith_def endswith_def suffix_to_prefix read_file_def lstrip_def isspace_def

lemma handle_file_File:
  assumes "inline_comment c = PStr marker"
    and "block_comment c ''open'' = Some bopen"
    and "block_comment c ''close'' = Some bclose"
    and "name \<notin> set (skip_folders c)"
    and "\<not> go_to_next_file c name"
  shows "handle_file c path name (File ls failed) =
           (Yield (header bopen (path_join path name) bclose)
              # map Log (if failed then [ErrorReadingFile (path_join path name)] else [])
              @ map Yield (filter (\<lambda>l. \<not> startswith (lstrip l) marker) ls)
              @ [Yield footer], None)"
  using assms
  by (simp add: handle_file_unskipped render_file_str isdir_def read_file_def)

lemma handle_file_isdir:
  assumes "inline_comment c = PStr marker"
    and "block_comment c ''open'' = Some bopen"
    and "block_comment c ''close'' = Some bclose"
    and "name \<notin> set (skip_folders c)"
    and "\<not> go_to_next_file c name"
    and "isdir n"
  shows "handle_file c path name n =
           (fst (walk_directory c path name n)
              @ [Yield (header bopen (path_join path name) bclose),
                 Log (ErrorReadingFile (path_join path name)),
                 Yield footer], None)"
proof -
  have ne: "snd (walk_directory c path name n) = None"
    using walk_no_exception(1) [OF assms(1-3)] .
  have rd: "read_file (path_join path name) n = ([], [ErrorReadingFile (path_join path name)])"
    using assms(6) by (cases n) (simp_all add: isdir_def read_file_def)
  obtain es where w: "walk_directory c path name n = (es, None)"
    using ne by (cases "walk_directory c path name n") simp
  show ?thesis
    using assms by (simp add: handle_file_unskipped render_file_str rd w)
qed

lemma walk_files_yields_mid:
  assumes "inline_comment c = PStr marker"
    and "block_comment c ''open'' = Some bopen"
    and "block_comment c ''close'' = Some bclose"
  shows "yields (fst (walk_files c path (before @ (name, n) # after))) =
           yields (fst (walk_files c path before))
             @ yields (fst (handle_file c path name n))
             @ yields (fst (walk_files c path after))"
proof -
  have a: "snd (walk_files c path before) = None"
    using walk_no_exception(2) [OF assms] .
  have b: "snd (handle_file c path name n) = None"
    using walk_no_exception(3) [OF assms] .
  have "walk_files c path (before @ (name, n) # after) =
      gen_seq (walk_files c path before)
        (gen_seq (handle_file c path name n) (walk_files c path after))"
    using walk_files_append [of c path before "(name, n) # after"] by simp
  then show ?thesis
    by (simp add: fst_gen_seq [OF a] fst_gen_seq [OF b])
qed

lemma start_raises_nothing:
  assumes "inline_comment c = PStr marker"
    and "block_comment c ''open'' = Some bopen"
    and "block_comment c ''close'' = Some bclose"
    and "makedirs_ok env"
  shows "raised (start c env root) = None"
  using assms(4) walk_no_exception(1) [OF assms(1-3), of "root_path c" "project_dir c" root]
  by (simp add: start_def write_out_def Let_def split: prod.splits)

section \<open>Stripping and the marker\<close>

lemma lstrip_marker_prefix:
  assumes "lstrip marker = marker"
  shows "startswith (lstrip (marker @ rest)) marker"
proof (cases marker)
  case Nil
  then show ?thesis by (simp add: startswith_def)
next
  case (Cons ch m)
  have "\<not> isspace ch"
  proof
    assume "isspace ch"
    with assms Cons have "dropWhile isspace m = ch # m"
      by (simp add: lstrip_def)
    moreover have "length (dropWhile isspace m) \<le> length m"
      by (rule length_dropWhile_le)
    ultimately show False by simp
  qed
  with Cons show ?thesis
    by (simp add: lstrip_def startswith_def)
qed

section \<open>A marker that is not a string\<close>

lemma write_lines_None: "write_lines es None = (yields es, logs es, False)"
  by (induction es rule: yields.induct) auto

lemma start_writable:
  assumes "makedirs_ok env" and "open_ok env" and "write_limit env = None" and "close_ok env"
  shows "start c env root =
           \<lparr>written = Some (yields (fst (walk_directory c (root_path c) (project_dir c) root))),
            logged = logs (fst (walk_directory c (root_path c) (project_dir c) root)),
            raised = snd (walk_directory c (root_path c) (project_dir c) root)\<rparr>"
  using assms by (simp add: start_def write_out_def Let_def write_lines_None)

lemma render_file_not_str:
  assumes "\<forall>s. inline_comment c \<noteq> PStr s"
    and "block_comment c ''open'' = Some bopen"
    and "block_comment c ''close'' = Some bclose"
  shows "render_file c new_file n =
           ([Yield (header bopen new_file bclose)], Some (TypeError ''inline_comment''))"
  using assms by (cases "inline_comment c") (simp_all add: render_file_def)

lemma stops_at_seq:
  assumes "stops_at bopen bclose g xs" and "stops_at bopen bclose h ys"
  shows "stops_at bopen bclose (gen_seq g h) (xs @ ys)"
proof (cases xs)
  case Nil
  with assms show ?thesis
    by (cases ys) (auto simp: gen_seq_def)
next
  case (Cons e es)
  with assms(1) show ?thesis
    by (cases e) (simp add: gen_seq_def)
qed

lemma stops_at_empty: "stops_at bopen bclose ([], None) []"
  by simp

lemma walk_stops_at:
  assumes "\<forall>s. inline_comment c \<noteq> PStr s"
    and "block_comment c ''open'' = Some bopen"
    and "block_comment c ''close'' = Some bclose"
  shows "\<forall>anc sub. set anc \<inter> set (skip_folders c) = {} \<longrightarrow> dir \<notin> set (skip_folders c) \<longrightarrow>
           n = Dir sub \<longrightarrow>
           stops_at bopen bclose (walk_directory c path dir n)
             (filter (included c) (tree_entries (path_join path dir) (anc @ [dir]) sub))"
    and "\<forall>anc. set anc \<inter> set (skip_folders c) = {} \<longrightarrow>
           stops_at bopen bclose (walk_files c next_path files)
             (filter (included c) (tree_entries next_path anc files))"
    and "\<forall>anc. set anc \<inter> set (skip_folders c) = {} \<longrightarrow>
           stops_at bopen bclose (handle_file c path name n)
             (filter (included c) (tree_entries path anc [(name, n)]))"
  using assms
proof (induction c path dir n and c next_path files and c path name n
    rule: walk_directory_walk_files_handle_file.induct)
  case (1 c path dir n)
  show ?case
  proof (intro allI impI)
    fix anc sub
    assume anc: "set anc \<inter> set (skip_folders c) = {}"
      and dir: "dir \<notin> set (skip_folders c)" and n: "n = Dir sub"
    from anc dir have "set (anc @ [dir]) \<inter> set (skip_folders c) = {}" by simp
    with "1.IH" [OF refl n "1.prems"] n walk_directory_Dir
    show "stops_at bopen bclose (walk_directory c path dir n)
             (filter (included c) (tree_entries (path_join path dir) (anc @ [dir]) sub))"
      by simp
  qed
next
  case (2 c next_path)
  then show ?case by simp
next
  case (3 c next_path name n files)
  have cut: "tree_entries next_path anc ((name, n) # files) =
      tree_entries next_path anc [(name, n)] @ tree_entries next_path anc files" for anc
    using tree_entries_append [of next_path anc "[(name, n)]" files] by simp
  show ?case
  proof (intro allI impI)
    fix anc
    assume anc: "set anc \<inter> set (skip_folders c) = {}"
    from "3.IH" "3.prems" have h: "\<forall>anc. set anc \<inter> set (skip_folders c) = {} \<longrightarrow>
           stops_at bopen bclose (handle_file c next_path name n)
             (filter (included c) (tree_entries next_path anc [(name, n)]))"
      and w: "\<forall>anc. set anc \<inter> set (skip_folders c) = {} \<longrightarrow>
           stops_at bopen bclose (walk_files c next_path files)
             (filter (included c) (tree_entries next_path anc files))"
      by - (assumption+)
    from stops_at_seq [OF h [rule_format, OF anc] w [rule_format, OF anc]]
    show "stops_at bopen bclose (walk_files c next_path ((name, n) # files))
             (filter (included c) (tree_entries next_path anc ((name, n) # files)))"
      by (simp only: cut filter_append walk_files.simps)
  qed
next
  case (4 c path name n)
  show ?case
  proof (intro allI impI)
    fix anc
    assume anc: "set anc \<inter> set (skip_folders c) = {}"
    show "stops_at bopen bclose (handle_file c path name n)
             (filter (included c) (tree_entries path anc [(name, n)]))"
    proof (cases "name \<in> set (skip_folders c)")
      case True
      then have "\<not> included c (anc, path, name, n)"
        by (simp add: included_def)
      with True show ?thesis
        by (cases n) (simp_all add: handle_file_skipped filter_included_skipped)
    next
      case False
      have own: "included c (anc, path, name, n) = (\<not> go_to_next_file c name)"
        using False anc by (simp add: included_def go_to_next_file_def)
      have rec: "stops_at bopen bclose
          (if isdir n then walk_directory c path name n else ([], None))
          (filter (included c)
            (case n of Dir sub \<Rightarrow> tree_entries (path_join path name) (anc @ [name]) sub
             | _ \<Rightarrow> []))"
      proof (cases n)
        case (Dir sub)
        then have d: "isdir n" by (simp add: isdir_def)
        from "4.IH" [OF False refl d "4.prems", rule_format, OF anc False Dir]
        show ?thesis
          using Dir by (simp add: isdir_def)
      next
        case (File ls failed)
        then show ?thesis by (simp add: isdir_def)
      next
        case Locked
        then show ?thesis by (simp add: isdir_def walk_directory_Locked)
      qed
      have ren: "stops_at bopen bclose
          (if go_to_next_file c name then ([], None)
           else render_file c (path_join path name) n)
          (filter (included c) [(anc, path, name, n)])"
        using own by (simp add: render_file_not_str [OF "4.prems"])
      have te: "tree_entries path anc [(name, n)] =
          (case n of Dir sub \<Rightarrow> tree_entries (path_join path name) (anc @ [name]) sub
           | _ \<Rightarrow> []) @ [(anc, path, name, n)]"
        by simp
      from stops_at_seq [OF rec ren] show ?thesis
        by (simp only: te filter_append handle_file_unskipped [OF False])
    qed
  qed
qed

lemma walk_directory_stops_at:
  assumes "\<forall>s. inline_comment c \<noteq> PStr s"
    and "block_comment c ''open'' = Some bopen"
    and "block_comment c ''close'' = Some bclose"
  shows "stops_at bopen bclose (walk_directory c path dir (Dir es))
           (filter (included c) (tree_entries (path_join path dir) [] es))"
  using walk_stops_at(2) [OF assms, of "path_join path dir" es]
  by (simp add: walk_directory_Dir)

section \<open>The events of a walk\<close>




section \<open>Unchecked values of the declared types\<close>

lemma PStr_mem_image [simp]: "(PStr s \<in> PStr ` A) = (s \<in> A)"
  by auto

lemma py_in_typed: "py_in attr s (PList (map PStr xs)) = Inr (s \<in> set xs)"
  by simp

lemma any_endswith_typed:
  "any_endswith s (map PStr xs) = Inr (list_ex (\<lambda>ext. endswith s ext) xs)"
  by (induction xs) auto

lemma raw_go_to_next_file_typed:
  "raw_go_to_next_file (raw_of c) name = Inr (go_to_next_file c name)"
  by (simp add: raw_go_to_next_file_def raw_of_def go_to_next_file_def py_in_typed
      any_endswith_typed)

lemma render_file_comment_syntax:
  "render_file (comment_syntax (raw_of c)) new_file n = render_file c new_file n"
  by (simp add: render_file_def comment_syntax_def raw_of_def split: option.splits)

lemma raw_walk_typed:
  "raw_walk_directory (raw_of c) path dir n = walk_directory c path dir n"
  "raw_walk_files (raw_of c) next_path files = walk_files c next_path files"
  "raw_handle_file (raw_of c) path name n = handle_file c path name n"
proof (induction c path dir n and c next_path files and c path name n
    rule: walk_directory_walk_files_handle_file.induct)
  case (1 c path dir n)
  then show ?case
    by (cases n) (simp_all add: walk_directory.simps)
next
  case (2 c next_path)
  then show ?case by simp
next
  case (3 c next_path name n files)
  then show ?case by simp
next
  case (4 c path name n)
  have sk: "py_in ''skip_folders'' name (raw_skip_folders (raw_of c)) =
      Inr (name \<in> set (skip_folders c))"
    by (simp add: raw_of_def py_in_typed)
  show ?case
  proof (cases "name \<in> set (skip_folders c)")
    case True
    then show ?thesis
      by (simp add: sk handle_file_skipped del: raw_walk_directory.simps)
  next
    case False
    have "(if isdir n then raw_walk_directory (raw_of c) path name n else ([], None)) =
        (if isdir n then walk_directory c path name n else ([], None))"
      using "4.IH" [OF False refl] by simp
    with False show ?thesis
      by (simp add: sk handle_file_unskipped raw_go_to_next_file_typed
          render_file_comment_syntax del: raw_walk_directory.simps)
  qed
qed

lemma raw_of_paths:
  "raw_root_path (raw_of c) = PStr (root_path c)"
  "raw_project_dir (raw_of c) = PStr (project_dir c)"
  "raw_output_dir (raw_of c) = PStr (output_dir c)"
  "raw_output_filename (raw_of c) = PStr (output_filename c)"
  "raw_output_extension (raw_of c) = PStr (output_extension c)"
  by (simp_all add: raw_of_def)

lemma raw_start_typed: "raw_start (raw_of c) str_of env root = start c env root"
  by (simp add: raw_start_def start_def raw_walk_typed(1) py_format_def raw_of_paths
      del: raw_walk_directory.simps)

declare raw_handle_file.simps [simp del] raw_walk_directory.simps [simp del]

section \<open>Runs on a small project\<close>

text \<open>
  The whole of \<^verbatim>\<open>run\<close>: on a project with one file to merge and one folder to skip; on
  a project configuration with a key that \<^verbatim>\<open>Config\<close> does not have; and on filters of
  another shape than a list of strings, which no code checks: an extension that is not a
  string raises where \<^verbatim>\<open>endswith\<close> meets it, after the first file has been merged, and a
  string in the place of the list of folders to skip is searched for the name.
\<close>

lemma lower_Python: "lower ''Python'' = ''python''"
  by code_simp

lemmas run_eval =
  run_def load_json_def get_language_syntax_def unpack_dict_to_dataclass_def dict_update_def
  config_fields_def field_value_def raw_start_def write_out_def py_format_def
  raw_go_to_next_file_def comment_syntax_def Let_def raw_walk_directory.simps
  raw_handle_file.simps render_file_def header_def footer_def

lemma run_scenario:
  "run scenario_files str_of example_env
     (Dir [(''a.py'', File [''x = 1\<newline>'', ''# comment\<newline>''] False),
           (''skip'', Dir [(''b.py'', File [''y = 2\<newline>''] False)])]) =
   \<lparr>written =
      Some [''```\<newline>'' @ [CHR 0x22, CHR 0x22, CHR 0x22] @ ''\<newline>file: root/proj/a.py\<newline>''
              @ [CHR 0x22, CHR 0x22, CHR 0x22] @ ''\<newline>'',
            ''x = 1\<newline>'', ''\<newline>```\<newline>\<newline>''],
    logged = [ErrorLoadingJSON ''config/skip_files.json''], raised = None\<rparr>"
  by (simp add: scenario_files_def lower_Python run_eval example_eval)

lemma run_unknown_field:
  "run (scenario_files\<lparr>project_config_json :=
          Some (PDict [(''project_language'', PStr ''Python''), (''colour'', PStr ''red'')])\<rparr>)
     str_of example_env (Dir []) =
   \<lparr>written = None, logged = [ErrorLoadingJSON ''config/skip_files.json''],
    raised = Some (TypeError ''colour'')\<rparr>"
  by (simp add: scenario_files_def lower_Python run_eval)

lemma run_unchecked_extension:
  "run (scenario_files\<lparr>allowed_extensions_json := Some (PList [PStr ''.py'', POther])\<rparr>)
     str_of example_env
     (Dir [(''a.py'', File [''x = 1\<newline>''] False), (''c.txt'', File [''text\<newline>''] False)]) =
   \<lparr>written =
      Some [''```\<newline>'' @ [CHR 0x22, CHR 0x22, CHR 0x22] @ ''\<newline>file: root/proj/a.py\<newline>''
              @ [CHR 0x22, CHR 0x22, CHR 0x22] @ ''\<newline>'',
            ''x = 1\<newline>'', ''\<newline>```\<newline>\<newline>''],
    logged = [ErrorLoadingJSON ''config/skip_files.json''],
    raised = Some (TypeError ''allowed_extensions'')\<rparr>"
  by (simp add: scenario_files_def lower_Python run_eval example_eval)

lemma run_unchecked_skip_folders:
  "run (scenario_files\<lparr>skip_folders_json := Some (PStr ''tmp/skip'')\<rparr>)
     str_of example_env
     (Dir [(''a.py'', File [''x = 1\<newline>''] False),
           (''skip'', Dir [(''b.py'', File [''y = 2\<newline>''] False)])]) =
   \<lparr>written =
      Some [''```\<newline>'' @ [CHR 0x22, CHR 0x22, CHR 0x22] @ ''\<newline>file: root/proj/a.py\<newline>''
              @ [CHR 0x22, CHR 0x22, CHR 0x22] @ ''\<newline>'',
            ''x = 1\<newline>'', ''\<newline>```\<newline>\<newline>''],
    logged = [ErrorLoadingJSON ''config/skip_files.json''], raised = None\<rparr>"
  by (simp add: scenario_files_def lower_Python run_eval example_eval sublist_code)

section \<open>Claims\<close>

text \<open>
  C1, as amended. Under a well-formed syntax the walk of a directory yields the blocks of
  the included entries, one block for each, in depth-first listing order, and nothing
  else. An entry is included if and only if its name ends with an allowed extension, is
  not in \<open>skip_files\<close> and is not in \<open>skip_folders\<close>, and no directory above it, below the
  root, has its name in \<open>skip_folders\<close>. The counterexample is a regular file that meets
  the three conditions of the claim and whose own name is in \<open>skip_folders\<close>: the walk
  yields nothing.
\<close>

theorem included_entries_in_listing_order:
  assumes "inline_comment c = PStr marker"
    and "block_comment c ''open'' = Some bopen"
    and "block_comment c ''close'' = Some bclose"
  shows "yields (fst (walk_directory c path dir (Dir es))) =
           concat (map (file_block bopen bclose marker)
             (filter (included c) (tree_entries (path_join path dir) [] es)))
         \<and> snd (walk_directory c path dir (Dir es)) = None"
  using walk_yields_blocks(2) [OF assms, of "path_join path dir" es]
    walk_no_exception(1) [OF assms, of path dir "Dir es"]
  by (simp add: walk_directory_Dir)

theorem included_entries_in_listing_order_witness:
  "inline_comment example_config = PStr ''#''
   \<and> block_comment example_config ''open'' = Some ''/*''
   \<and> block_comment example_config ''close'' = Some ''*/''
   \<and> filter (included example_config) (tree_entries (path_join ''root'' ''proj'') [] example_tree) =
       [([], ''root/proj'', ''a.py'', File [''x = 1\<newline>'', ''# comment\<newline>''] False),
        ([''pkg''], ''root/proj/pkg'', ''c.py'',
           File [''  # indented\<newline>'', ''z = 3  # kept\<newline>''] False)]
   \<and> yields (fst (walk_directory example_config ''root'' ''proj'' (Dir example_tree))) =
       [''```\<newline>/*\<newline>file: root/proj/a.py\<newline>*/\<newline>'', ''x = 1\<newline>'', ''\<newline>```\<newline>\<newline>'',
        ''```\<newline>/*\<newline>file: root/proj/pkg/c.py\<newline>*/\<newline>'', ''z = 3  # kept\<newline>'',
        ''\<newline>```\<newline>\<newline>'']"
proof -
  have h1: "inline_comment example_config = PStr ''#''" by (simp add: example_eval)
  have h2: "block_comment example_config ''open'' = Some ''/*''" by (simp add: example_eval)
  have h3: "block_comment example_config ''close'' = Some ''*/''" by (simp add: example_eval)
  have f: "filter (included example_config) (tree_entries (path_join ''root'' ''proj'') [] example_tree) =
       [([], ''root/proj'', ''a.py'', File [''x = 1\<newline>'', ''# comment\<newline>''] False),
        ([''pkg''], ''root/proj/pkg'', ''c.py'',
           File [''  # indented\<newline>'', ''z = 3  # kept\<newline>''] False)]"
    by (simp add: example_tree_def included_def example_eval)
  from included_entries_in_listing_order [OF h1 h2 h3, of "''root''" "''proj''" example_tree]
    h1 h2 h3 f
  show ?thesis
    by (simp add: file_block_def header_def footer_def example_eval)
qed

theorem included_entries_in_listing_order_counterexample:
  "claimed_included (example_config\<lparr>skip_folders := [''notes.py'']\<rparr>)
     ([], ''root/proj'', ''notes.py'', File [''x = 1\<newline>''] False)
   \<and> yields (fst (walk_directory (example_config\<lparr>skip_folders := [''notes.py'']\<rparr>) ''root'' ''proj''
         (Dir [(''notes.py'', File [''x = 1\<newline>''] False)]))) = []"
  by (simp add: claimed_included_def walk_directory.simps handle_file.simps example_eval)

text \<open>
  C2, as amended. The content of an included file, between header and footer, is the
  lines whose stripped form does not start with the marker, in their order: a line of
  the file is in the content if and only if so. A line that consists of the marker, with
  or without text after it, is dropped when the marker does not itself begin with white
  space; a line with the marker further on is kept when its stripped form does not
  start with the marker. The counterexample is the marker \<open>'' #''\<close>: the line that
  consists of the marker is kept.
\<close>

theorem comment_lines_are_dropped:
  assumes "inline_comment c = PStr marker"
    and "block_comment c ''open'' = Some bopen"
    and "block_comment c ''close'' = Some bclose"
    and "name \<notin> set (skip_folders c)"
    and "\<not> go_to_next_file c name"
  shows "(\<exists>content.
            yields (fst (handle_file c path name (File ls failed))) =
              header bopen (path_join path name) bclose # content @ [footer]
            \<and> content = filter (\<lambda>l. \<not> startswith (lstrip l) marker) ls
            \<and> (\<forall>l \<in> set ls. l \<in> set content \<longleftrightarrow> \<not> startswith (lstrip l) marker)
            \<and> (lstrip marker = marker \<longrightarrow> marker @ rest \<notin> set content)
            \<and> (pre @ marker @ post \<in> set ls
                 \<and> \<not> startswith (lstrip (pre @ marker @ post)) marker \<longrightarrow>
                 pre @ marker @ post \<in> set content))"
proof -
  have "yields (fst (handle_file c path name (File ls failed))) =
      header bopen (path_join path name) bclose
        # filter (\<lambda>l. \<not> startswith (lstrip l) marker) ls @ [footer]"
    by (simp add: handle_file_File [OF assms])
  moreover have "lstrip marker = marker \<longrightarrow>
      marker @ rest \<notin> set (filter (\<lambda>l. \<not> startswith (lstrip l) marker) ls)"
    using lstrip_marker_prefix [of marker rest] by simp
  ultimately show ?thesis by simp
qed

theorem comment_lines_are_dropped_witness:
  "inline_comment example_config = PStr ''#''
   \<and> block_comment example_config ''open'' = Some ''/*''
   \<and> block_comment example_config ''close'' = Some ''*/''
   \<and> ''a.py'' \<notin> set (skip_folders example_config)
   \<and> \<not> go_to_next_file example_config ''a.py''
   \<and> lstrip ''#'' = ''#''
   \<and> ''x = 1 '' @ ''#'' @ '' set\<newline>'' \<in> set [''#\<newline>'', ''  # note\<newline>'', ''x = 1 # set\<newline>'']
   \<and> \<not> startswith (lstrip (''x = 1 '' @ ''#'' @ '' set\<newline>'')) ''#''
   \<and> yields (fst (handle_file example_config ''root/proj'' ''a.py''
         (File [''#\<newline>'', ''  # note\<newline>'', ''x = 1 # set\<newline>''] False))) =
       [''```\<newline>/*\<newline>file: root/proj/a.py\<newline>*/\<newline>'', ''x = 1 # set\<newline>'', ''\<newline>```\<newline>\<newline>'']"
proof -
  have h1: "inline_comment example_config = PStr ''#''" by (simp add: example_eval)
  have h2: "block_comment example_config ''open'' = Some ''/*''" by (simp add: example_eval)
  have h3: "block_comment example_config ''close'' = Some ''*/''" by (simp add: example_eval)
  have h4: "''a.py'' \<notin> set (skip_folders example_config)" by (simp add: example_eval)
  have h5: "\<not> go_to_next_file example_config ''a.py''" by (simp add: example_eval)
  have h6: "lstrip ''#'' = ''#''" by (simp add: example_eval)
  have h7: "''x = 1 '' @ ''#'' @ '' set\<newline>'' \<in> set [''#\<newline>'', ''  # note\<newline>'', ''x = 1 # set\<newline>'']"
    by simp
  have h8: "\<not> startswith (lstrip (''x = 1 '' @ ''#'' @ '' set\<newline>'')) ''#''"
    by (simp add: example_eval)
  from comment_lines_are_dropped [OF h1 h2 h3 h4 h5, of "''root/proj''"
      "[''#\<newline>'', ''  # note\<newline>'', ''x = 1 # set\<newline>'']" False "''\<newline>''" "''x = 1 ''" "'' set\<newline>''"]
    h1 h2 h3 h4 h5 h6 h7 h8
  show ?thesis
    by (simp add: header_def footer_def example_eval)
qed

theorem comment_lines_are_dropped_counterexample:
  "inline_comment (example_config\<lparr>inline_comment := PStr '' #''\<rparr>) = PStr '' #''
   \<and> yields (fst (handle_file (example_config\<lparr>inline_comment := PStr '' #''\<rparr>) ''root/proj''
         ''a.py'' (File ['' #''] False))) =
       [''```\<newline>/*\<newline>file: root/proj/a.py\<newline>*/\<newline>'', '' #'', ''\<newline>```\<newline>\<newline>'']"
  by (simp add: handle_file.simps render_file_def header_def footer_def example_eval)

text \<open>
  C3, as amended. An entry that is a directory, whose name is eligible and is not in
  \<open>skip_folders\<close>, gives the events of its own walk first, then its header, the log
  entry of the read that fails on a directory, and its footer. The counterexample is a
  directory with an eligible name that is in \<open>skip_folders\<close>: it is neither walked nor
  rendered.
\<close>

theorem eligible_directory_walked_then_rendered:
  assumes "inline_comment c = PStr marker"
    and "block_comment c ''open'' = Some bopen"
    and "block_comment c ''close'' = Some bclose"
    and "name \<notin> set (skip_folders c)"
    and "\<not> go_to_next_file c name"
    and "isdir n"
  shows "handle_file c path name n =
           (fst (walk_directory c path name n)
              @ [Yield (header bopen (path_join path name) bclose),
                 Log (ErrorReadingFile (path_join path name)),
                 Yield footer], None)
         \<and> yields (fst (handle_file c path name n)) =
             yields (fst (walk_directory c path name n))
               @ [header bopen (path_join path name) bclose, footer]"
  by (simp add: handle_file_isdir [OF assms])

theorem eligible_directory_walked_then_rendered_witness:
  "inline_comment example_config = PStr ''#''
   \<and> block_comment example_config ''open'' = Some ''/*''
   \<and> block_comment example_config ''close'' = Some ''*/''
   \<and> ''pkg.py'' \<notin> set (skip_folders example_config)
   \<and> \<not> go_to_next_file example_config ''pkg.py''
   \<and> isdir (Dir [(''a.py'', File [''x = 1\<newline>''] False)])
   \<and> handle_file example_config ''root/proj'' ''pkg.py''
         (Dir [(''a.py'', File [''x = 1\<newline>''] False)]) =
       ([Yield ''```\<newline>/*\<newline>file: root/proj/pkg.py/a.py\<newline>*/\<newline>'', Yield ''x = 1\<newline>'',
         Yield ''\<newline>```\<newline>\<newline>'',
         Yield ''```\<newline>/*\<newline>file: root/proj/pkg.py\<newline>*/\<newline>'',
         Log (ErrorReadingFile ''root/proj/pkg.py''),
         Yield ''\<newline>```\<newline>\<newline>''], None)"
proof -
  have h1: "inline_comment example_config = PStr ''#''" by (simp add: example_eval)
  have h2: "block_comment example_config ''open'' = Some ''/*''" by (simp add: example_eval)
  have h3: "block_comment example_config ''close'' = Some ''*/''" by (simp add: example_eval)
  have h4: "''pkg.py'' \<notin> set (skip_folders example_config)" by (simp add: example_eval)
  have h5: "\<not> go_to_next_file example_config ''pkg.py''" by (simp add: example_eval)
  have h6: "isdir (Dir [(''a.py'', File [''x = 1\<newline>''] False)])" by (simp add: isdir_def)
  have w: "walk_directory example_config ''root/proj'' ''pkg.py''
         (Dir [(''a.py'', File [''x = 1\<newline>''] False)]) =
       ([Yield ''```\<newline>/*\<newline>file: root/proj/pkg.py/a.py\<newline>*/\<newline>'', Yield ''x = 1\<newline>'',
         Yield ''\<newline>```\<newline>\<newline>''], None)"
    by (simp add: walk_directory.simps handle_file.simps render_file_def header_def
        footer_def example_eval)
  from eligible_directory_walked_then_rendered [OF h1 h2 h3 h4 h5 h6, of "''root/proj''"]
    h1 h2 h3 h4 h5 h6
  show ?thesis
    by (simp add: w header_def footer_def path_join_def startswith_def endswith_def
        suffix_to_prefix)
qed

theorem eligible_directory_walked_then_rendered_counterexample:
  "isdir (Dir [(''a.py'', File [''x = 1\<newline>''] False)])
   \<and> \<not> go_to_next_file (example_config\<lparr>skip_folders := [''pkg.py'']\<rparr>) ''pkg.py''
   \<and> handle_file (example_config\<lparr>skip_folders := [''pkg.py'']\<rparr>) ''root/proj'' ''pkg.py''
         (Dir [(''a.py'', File [''x = 1\<newline>''] False)]) = ([], None)"
  by (simp add: handle_file.simps example_eval)

text \<open>
  C4. What an included file contributes is exactly its header, the lines that are kept,
  in their order, and the footer. Concatenated: the fence line, the block comment opening
  token, the line with the path of the file, the block comment closing token, the kept
  lines, a newline, the closing fence line and an empty line. In a listing the block
  stands whole between what the entries before it and the entries after it yield.
\<close>

theorem rendered_block_layout:
  assumes "inline_comment c = PStr marker"
    and "block_comment c ''open'' = Some bopen"
    and "block_comment c ''close'' = Some bclose"
    and "name \<notin> set (skip_folders c)"
    and "\<not> go_to_next_file c name"
  shows "yields (fst (handle_file c path name (File ls failed))) =
           header bopen (path_join path name) bclose
             # filter (\<lambda>l. \<not> startswith (lstrip l) marker) ls @ [footer]
         \<and> concat (yields (fst (handle_file c path name (File ls failed)))) =
             ''```\<newline>'' @ bopen @ ''\<newline>'' @ ''file: '' @ path_join path name @ ''\<newline>''
               @ bclose @ ''\<newline>''
               @ concat (filter (\<lambda>l. \<not> startswith (lstrip l) marker) ls)
               @ ''\<newline>'' @ ''```\<newline>'' @ ''\<newline>''
         \<and> yields (fst (walk_files c path (before @ (name, File ls failed) # after))) =
             yields (fst (walk_files c path before))
               @ (header bopen (path_join path name) bclose
                    # filter (\<lambda>l. \<not> startswith (lstrip l) marker) ls @ [footer])
               @ yields (fst (walk_files c path after))"
proof -
  have y: "yields (fst (handle_file c path name (File ls failed))) =
           header bopen (path_join path name) bclose
             # filter (\<lambda>l. \<not> startswith (lstrip l) marker) ls @ [footer]"
    by (simp add: handle_file_File [OF assms])
  have "concat (yields (fst (handle_file c path name (File ls failed)))) =
             ''```\<newline>'' @ bopen @ ''\<newline>'' @ ''file: '' @ path_join path name @ ''\<newline>''
               @ bclose @ ''\<newline>''
               @ concat (filter (\<lambda>l. \<not> startswith (lstrip l) marker) ls)
               @ ''\<newline>'' @ ''```\<newline>'' @ ''\<newline>''"
    by (simp add: y header_def footer_def)
  moreover have "yields (fst (walk_files c path (before @ (name, File ls failed) # after))) =
             yields (fst (walk_files c path before))
               @ (header bopen (path_join path name) bclose
                    # filter (\<lambda>l. \<not> startswith (lstrip l) marker) ls @ [footer])
               @ yields (fst (walk_files c path after))"
    by (simp only: walk_files_yields_mid [OF assms(1-3)] y)
  ultimately show ?thesis using y by simp
qed

theorem rendered_block_layout_witness:
  "inline_comment example_config = PStr ''#''
   \<and> block_comment example_config ''open'' = Some ''/*''
   \<and> block_comment example_config ''close'' = Some ''*/''
   \<and> ''a.py'' \<notin> set (skip_folders example_config)
   \<and> \<not> go_to_next_file example_config ''a.py''
   \<and> concat (yields (fst (handle_file example_config ''root/proj'' ''a.py''
         (File [''x = 1\<newline>'', ''# note\<newline>'', ''y = 2\<newline>''] False)))) =
       ''```\<newline>/*\<newline>file: root/proj/a.py\<newline>*/\<newline>x = 1\<newline>y = 2\<newline>\<newline>```\<newline>\<newline>''"
proof -
  have h1: "inline_comment example_config = PStr ''#''" by (simp add: example_eval)
  have h2: "block_comment example_config ''open'' = Some ''/*''" by (simp add: example_eval)
  have h3: "block_comment example_config ''close'' = Some ''*/''" by (simp add: example_eval)
  have h4: "''a.py'' \<notin> set (skip_folders example_config)" by (simp add: example_eval)
  have h5: "\<not> go_to_next_file example_config ''a.py''" by (simp add: example_eval)
  from rendered_block_layout [OF h1 h2 h3 h4 h5, of "''root/proj''"
      "[''x = 1\<newline>'', ''# note\<newline>'', ''y = 2\<newline>'']" False "[]" "[]"] h1 h2 h3 h4 h5
  show ?thesis
    by (simp add: header_def footer_def path_join_def startswith_def endswith_def
        suffix_to_prefix lstrip_def isspace_def)
qed

text \<open>
  C5, as amended. When the read of an included file fails, after the lines \<open>ls\<close>, the
  failure is logged, and the file contributes its header, the lines of \<open>ls\<close> that are
  kept, and its footer: the footer is yielded all the same. Nothing is raised, and
  the entries before and after it in the listing are walked as usual. The
  counterexample shows that the output of such a file does not end with the
  partial content.
\<close>

theorem failed_read_keeps_partial_output:
  assumes "inline_comment c = PStr marker"
    and "block_comment c ''open'' = Some bopen"
    and "block_comment c ''close'' = Some bclose"
    and "name \<notin> set (skip_folders c)"
    and "\<not> go_to_next_file c name"
  shows "handle_file c path name (File ls True) =
           (Yield (header bopen (path_join path name) bclose)
              # Log (ErrorReadingFile (path_join path name))
              # map Yield (filter (\<lambda>l. \<not> startswith (lstrip l) marker) ls)
              @ [Yield footer], None)
         \<and> walk_files c path (before @ (name, File ls True) # after) =
             gen_seq (walk_files c path before)
               (gen_seq (handle_file c path name (File ls True)) (walk_files c path after))
         \<and> yields (fst (walk_files c path (before @ (name, File ls True) # after))) =
             yields (fst (walk_files c path before))
               @ (header bopen (path_join path name) bclose
                    # filter (\<lambda>l. \<not> startswith (lstrip l) marker) ls @ [footer])
               @ yields (fst (walk_files c path after))
         \<and> snd (walk_files c path (before @ (name, File ls True) # after)) = None"
proof -
  have h: "handle_file c path name (File ls True) =
           (Yield (header bopen (path_join path name) bclose)
              # Log (ErrorReadingFile (path_join path name))
              # map Yield (filter (\<lambda>l. \<not> startswith (lstrip l) marker) ls)
              @ [Yield footer], None)"
    by (simp add: handle_file_File [OF assms])
  have w: "walk_files c path (before @ (name, File ls True) # after) =
             gen_seq (walk_files c path before)
               (gen_seq (handle_file c path name (File ls True)) (walk_files c path after))"
    using walk_files_append [of c path before "(name, File ls True) # after"] by simp
  have y: "yields (fst (walk_files c path (before @ (name, File ls True) # after))) =
             yields (fst (walk_files c path before))
               @ (header bopen (path_join path name) bclose
                    # filter (\<lambda>l. \<not> startswith (lstrip l) marker) ls @ [footer])
               @ yields (fst (walk_files c path after))"
    by (simp add: walk_files_yields_mid [OF assms(1-3)] h)
  from h w y walk_no_exception(2) [OF assms(1-3), of path "before @ (name, File ls True) # after"]
  show ?thesis by (simp only: simp_thms)
qed

theorem failed_read_keeps_partial_output_witness:
  "inline_comment example_config = PStr ''#''
   \<and> block_comment example_config ''open'' = Some ''/*''
   \<and> block_comment example_config ''close'' = Some ''*/''
   \<and> ''a.py'' \<notin> set (skip_folders example_config)
   \<and> \<not> go_to_next_file example_config ''a.py''
   \<and> walk_files example_config ''root/proj''
        ([] @ (''a.py'', File [''x = 1\<newline>''] True) # [(''b.py'', File [''y = 2\<newline>''] False)]) =
       ([Yield ''```\<newline>/*\<newline>file: root/proj/a.py\<newline>*/\<newline>'',
         Log (ErrorReadingFile ''root/proj/a.py''),
         Yield ''x = 1\<newline>'',
         Yield ''\<newline>```\<newline>\<newline>'',
         Yield ''```\<newline>/*\<newline>file: root/proj/b.py\<newline>*/\<newline>'', Yield ''y = 2\<newline>'',
         Yield ''\<newline>```\<newline>\<newline>''], None)"
proof -
  have h1: "inline_comment example_config = PStr ''#''" by (simp add: example_eval)
  have h2: "block_comment example_config ''open'' = Some ''/*''" by (simp add: example_eval)
  have h3: "block_comment example_config ''close'' = Some ''*/''" by (simp add: example_eval)
  have h4: "''a.py'' \<notin> set (skip_folders example_config)" by (simp add: example_eval)
  have h5: "\<not> go_to_next_file example_config ''a.py''" by (simp add: example_eval)
  have b: "handle_file example_config ''root/proj'' ''b.py'' (File [''y = 2\<newline>''] False) =
      ([Yield ''```\<newline>/*\<newline>file: root/proj/b.py\<newline>*/\<newline>'', Yield ''y = 2\<newline>'',
         Yield ''\<newline>```\<newline>\<newline>''], None)"
    by (simp add: handle_file.simps render_file_def header_def footer_def example_eval)
  from failed_read_keeps_partial_output [OF h1 h2 h3 h4 h5, of "''root/proj''"
      "[''x = 1\<newline>'']" "[]" "[(''b.py'', File [''y = 2\<newline>''] False)]"]
    h1 h2 h3 h4 h5
  show ?thesis
    by (simp add: b header_def footer_def path_join_def startswith_def endswith_def
        suffix_to_prefix lstrip_def isspace_def)
qed

theorem failed_read_keeps_partial_output_counterexample:
  "yields (fst (handle_file example_config ''root/proj'' ''a.py'' (File [''x = 1\<newline>''] True))) \<noteq>
     [''```\<newline>/*\<newline>file: root/proj/a.py\<newline>*/\<newline>'', ''x = 1\<newline>'']
   \<and> yields (fst (handle_file example_config ''root/proj'' ''a.py'' (File [''x = 1\<newline>''] True))) =
     [''```\<newline>/*\<newline>file: root/proj/a.py\<newline>*/\<newline>'', ''x = 1\<newline>'', ''\<newline>```\<newline>\<newline>'']"
  by (simp add: handle_file.simps render_file_def header_def footer_def example_eval)

text \<open>
  C6, as amended. A project configuration that is not a dictionary, and a project
  language that is not a string, raise \<^verbatim>\<open>TypeError\<close> in \<^verbatim>\<open>run\<close>: nothing is walked and
  the output file is never opened. An inline comment marker that is not a string, with
  both block comment tokens present, raises \<^verbatim>\<open>TypeError\<close> in \<^verbatim>\<open>handle_file\<close> after the
  header of the entry has been yielded. So the walk of a tree with no included entry
  yields nothing and raises nothing, and the walk of any other tree yields the header of
  its first included entry, in the order of the walk, and nothing else, and raises the
  error; a run that can write ends with an empty output and no exception in the first
  case, with that one header written and the exception in the second. The
  counterexample is a run of the second kind.
\<close>

theorem configuration_type_errors:
  "(project_config_json cf = Some v \<and> (\<forall>pc. v \<noteq> PDict pc) \<longrightarrow>
      (\<exists>lg. run cf str_of env root =
         \<lparr>written = None, logged = lg, raised = Some (TypeError ''project_config'')\<rparr>))
   \<and> (project_config_json cf' = Some (PDict pc) \<and> map_of pc ''project_language'' = Some w
        \<and> (\<forall>s. w \<noteq> PStr s) \<longrightarrow>
      (\<exists>lg. run cf' str_of env root =
         \<lparr>written = None, logged = lg, raised = Some (TypeError ''project_language'')\<rparr>))
   \<and> ((\<forall>s. inline_comment c \<noteq> PStr s) \<and> block_comment c ''open'' = Some bopen
        \<and> block_comment c ''close'' = Some bclose \<longrightarrow>
      render_file c new_file n =
        ([Yield (header bopen new_file bclose)], Some (TypeError ''inline_comment''))
      \<and> (filter (included c) (tree_entries (path_join path dir) [] es) = [] \<longrightarrow>
           yields (fst (walk_directory c path dir (Dir es))) = []
           \<and> snd (walk_directory c path dir (Dir es)) = None)
      \<and> (filter (included c) (tree_entries (path_join path dir) [] es') = (anc, p, name, n') # rest \<longrightarrow>
           yields (fst (walk_directory c path dir (Dir es'))) =
             [header bopen (path_join p name) bclose]
           \<and> snd (walk_directory c path dir (Dir es')) = Some (TypeError ''inline_comment''))
      \<and> (makedirs_ok env \<and> open_ok env \<and> write_limit env = None \<and> close_ok env \<longrightarrow>
           (filter (included c)
              (tree_entries (path_join (root_path c) (project_dir c)) [] es) = [] \<longrightarrow>
            written (start c env (Dir es)) = Some []
            \<and> raised (start c env (Dir es)) = None)
           \<and> (filter (included c)
                (tree_entries (path_join (root_path c) (project_dir c)) [] es') =
                  (anc, p, name, n') # rest \<longrightarrow>
            written (start c env (Dir es')) = Some [header bopen (path_join p name) bclose]
            \<and> raised (start c env (Dir es')) = Some (TypeError ''inline_comment''))))"
proof (intro conjI impI)
  assume "project_config_json cf = Some v \<and> (\<forall>pc. v \<noteq> PDict pc)"
  then show "\<exists>lg. run cf str_of env root =
         \<lparr>written = None, logged = lg, raised = Some (TypeError ''project_config'')\<rparr>"
    by (cases v) (simp_all add: run_def load_json_def Let_def split: prod.splits)
next
  assume "project_config_json cf' = Some (PDict pc) \<and> map_of pc ''project_language'' = Some w
        \<and> (\<forall>s. w \<noteq> PStr s)"
  then show "\<exists>lg. run cf' str_of env root =
         \<lparr>written = None, logged = lg, raised = Some (TypeError ''project_language'')\<rparr>"
    by (cases w) (simp_all add: run_def load_json_def Let_def split: prod.splits)
next
  assume "(\<forall>s. inline_comment c \<noteq> PStr s) \<and> block_comment c ''open'' = Some bopen
        \<and> block_comment c ''close'' = Some bclose"
  then show "render_file c new_file n =
        ([Yield (header bopen new_file bclose)], Some (TypeError ''inline_comment''))"
    by (simp add: render_file_not_str)
next
  assume a: "(\<forall>s. inline_comment c \<noteq> PStr s) \<and> block_comment c ''open'' = Some bopen
        \<and> block_comment c ''close'' = Some bclose"
    and f: "filter (included c) (tree_entries (path_join path dir) [] es) = []"
  from a have "stops_at bopen bclose (walk_directory c path dir (Dir es))
           (filter (included c) (tree_entries (path_join path dir) [] es))"
    by (simp add: walk_directory_stops_at)
  with f show "yields (fst (walk_directory c path dir (Dir es))) = []"
    and "snd (walk_directory c path dir (Dir es)) = None"
    by simp_all
next
  assume a: "(\<forall>s. inline_comment c \<noteq> PStr s) \<and> block_comment c ''open'' = Some bopen
        \<and> block_comment c ''close'' = Some bclose"
    and f: "filter (included c) (tree_entries (path_join path dir) [] es') = (anc, p, name, n') # rest"
  from a have "stops_at bopen bclose (walk_directory c path dir (Dir es'))
           (filter (included c) (tree_entries (path_join path dir) [] es'))"
    by (simp add: walk_directory_stops_at)
  with f show "yields (fst (walk_directory c path dir (Dir es'))) =
             [header bopen (path_join p name) bclose]"
    and "snd (walk_directory c path dir (Dir es')) = Some (TypeError ''inline_comment'')"
    by simp_all
next
  assume a: "(\<forall>s. inline_comment c \<noteq> PStr s) \<and> block_comment c ''open'' = Some bopen
        \<and> block_comment c ''close'' = Some bclose"
    and e: "makedirs_ok env \<and> open_ok env \<and> write_limit env = None \<and> close_ok env"
    and f: "filter (included c)
              (tree_entries (path_join (root_path c) (project_dir c)) [] es) = []"
  from a have "stops_at bopen bclose (walk_directory c (root_path c) (project_dir c) (Dir es))
           (filter (included c) (tree_entries (path_join (root_path c) (project_dir c)) [] es))"
    by (simp add: walk_directory_stops_at)
  with f e show "written (start c env (Dir es)) = Some []"
    and "raised (start c env (Dir es)) = None"
    by (simp_all add: start_writable)
next
  assume a: "(\<forall>s. inline_comment c \<noteq> PStr s) \<and> block_comment c ''open'' = Some bopen
        \<and> block_comment c ''close'' = Some bclose"
    and e: "makedirs_ok env \<and> open_ok env \<and> write_limit env = None \<and> close_ok env"
    and f: "filter (included c)
                (tree_entries (path_join (root_path c) (project_dir c)) [] es') =
                  (anc, p, name, n') # rest"
  from a have "stops_at bopen bclose (walk_directory c (root_path c) (project_dir c) (Dir es'))
           (filter (included c) (tree_entries (path_join (root_path c) (project_dir c)) [] es'))"
    by (simp add: walk_directory_stops_at)
  with f e show "written (start c env (Dir es')) = Some [header bopen (path_join p name) bclose]"
    and "raised (start c env (Dir es')) = Some (TypeError ''inline_comment'')"
    by (simp_all add: start_writable)
qed

theorem configuration_type_errors_witness:
  "project_config_json not_a_dict_files = Some (PList []) \<and> (\<forall>pc. PList [] \<noteq> PDict pc)
   \<and> project_config_json not_a_str_files = Some (PDict [(''project_language'', POther)])
   \<and> map_of [(''project_language'', POther)] ''project_language'' = Some POther
   \<and> (\<forall>s. POther \<noteq> PStr s)
   \<and> (\<forall>s. inline_comment (example_config\<lparr>inline_comment := PDict []\<rparr>) \<noteq> PStr s)
   \<and> block_comment (example_config\<lparr>inline_comment := PDict []\<rparr>) ''open'' = Some ''/*''
   \<and> block_comment (example_config\<lparr>inline_comment := PDict []\<rparr>) ''close'' = Some ''*/''
   \<and> makedirs_ok example_env \<and> open_ok example_env \<and> write_limit example_env = None
   \<and> close_ok example_env
   \<and> filter (included (example_config\<lparr>inline_comment := PDict []\<rparr>))
        (tree_entries (path_join ''root'' ''proj'') [] [(''c.txt'', File [''text\<newline>''] False)]) = []
   \<and> filter (included (example_config\<lparr>inline_comment := PDict []\<rparr>))
        (tree_entries (path_join ''root'' ''proj'') [] example_tree) =
       ([], ''root/proj'', ''a.py'', File [''x = 1\<newline>'', ''# comment\<newline>''] False)
         # [([''pkg''], ''root/proj/pkg'', ''c.py'',
              File [''  # indented\<newline>'', ''z = 3  # kept\<newline>''] False)]
   \<and> (\<exists>lg. run not_a_dict_files (\<lambda>v. []) example_env (Dir example_tree) =
         \<lparr>written = None, logged = lg, raised = Some (TypeError ''project_config'')\<rparr>)
   \<and> (\<exists>lg. run not_a_str_files (\<lambda>v. []) example_env (Dir example_tree) =
         \<lparr>written = None, logged = lg, raised = Some (TypeError ''project_language'')\<rparr>)
   \<and> written (start (example_config\<lparr>inline_comment := PDict []\<rparr>) example_env
        (Dir [(''c.txt'', File [''text\<newline>''] False)])) = Some []
   \<and> raised (start (example_config\<lparr>inline_comment := PDict []\<rparr>) example_env
        (Dir [(''c.txt'', File [''text\<newline>''] False)])) = None
   \<and> written (start (example_config\<lparr>inline_comment := PDict []\<rparr>) example_env
        (Dir example_tree)) = Some [''```\<newline>/*\<newline>file: root/proj/a.py\<newline>*/\<newline>'']
   \<and> raised (start (example_config\<lparr>inline_comment := PDict []\<rparr>) example_env
        (Dir example_tree)) = Some (TypeError ''inline_comment'')"
proof -
  let ?c = "example_config\<lparr>inline_comment := PDict []\<rparr>"
  have h1: "project_config_json not_a_dict_files = Some (PList []) \<and> (\<forall>pc. PList [] \<noteq> PDict pc)"
    by (simp add: not_a_dict_files_def)
  have h2: "project_config_json not_a_str_files = Some (PDict [(''project_language'', POther)])
      \<and> map_of [(''project_language'', POther)] ''project_language'' = Some POther
      \<and> (\<forall>s. POther \<noteq> PStr s)"
    by (simp add: not_a_str_files_def)
  have h3: "(\<forall>s. inline_comment ?c \<noteq> PStr s) \<and> block_comment ?c ''open'' = Some ''/*''
      \<and> block_comment ?c ''close'' = Some ''*/''"
    by (simp add: example_eval)
  have h4: "makedirs_ok example_env \<and> open_ok example_env \<and> write_limit example_env = None
      \<and> close_ok example_env"
    by (simp add: example_eval)
  have r: "root_path ?c = ''root''" "project_dir ?c = ''proj''"
    by (simp_all add: example_config_def)
  have h5: "filter (included ?c)
        (tree_entries (path_join ''root'' ''proj'') [] [(''c.txt'', File [''text\<newline>''] False)]) = []"
    by (simp add: included_def example_eval)
  have h6: "filter (included ?c)
        (tree_entries (path_join ''root'' ''proj'') [] example_tree) =
       ([], ''root/proj'', ''a.py'', File [''x = 1\<newline>'', ''# comment\<newline>''] False)
         # [([''pkg''], ''root/proj/pkg'', ''c.py'',
              File [''  # indented\<newline>'', ''z = 3  # kept\<newline>''] False)]"
    by (simp add: example_tree_def included_def example_eval)
  from configuration_type_errors [of not_a_dict_files "PList []" "\<lambda>v. []" example_env
      "Dir example_tree" not_a_str_files "[(''project_language'', POther)]" POther ?c
      "''/*''" "''*/''" "''root/proj/a.py''" "File [''x = 1\<newline>'', ''# comment\<newline>''] False"
      "''root''" "''proj''" "[(''c.txt'', File [''text\<newline>''] False)]" example_tree
      "[]" "''root/proj''" "''a.py''" "File [''x = 1\<newline>'', ''# comment\<newline>''] False"
      "[([''pkg''], ''root/proj/pkg'', ''c.py'',
              File [''  # indented\<newline>'', ''z = 3  # kept\<newline>''] False)]"]
    h1 h2 h3 h4 h5 h6
  show ?thesis
    by (simp only: r simp_thms)
      (simp add: header_def path_join_def startswith_def endswith_def suffix_to_prefix)
qed

theorem configuration_type_errors_counterexample:
  "start (example_config\<lparr>inline_comment := PDict []\<rparr>) example_env
     (Dir [(''a.py'', File [''x = 1\<newline>''] False)]) =
   \<lparr>written = Some [''```\<newline>/*\<newline>file: root/proj/a.py\<newline>*/\<newline>''], logged = [],
    raised = Some (TypeError ''inline_comment'')\<rparr>"
  by (simp add: start_def write_out_def Let_def walk_directory.simps handle_file.simps
      render_file_def header_def example_eval)



text \<open>
  C8. An entry whose name is a member of \<open>skip_folders\<close> contributes nothing, whatever
  lies there: a directory, or a regular file with an allowed extension that is not in
  \<open>skip_files\<close>. The test on the name comes before the directory test, so the listing
  gives the same events with the entry as without it.
\<close>

theorem skip_folders_check_comes_first:
  "name \<in> set (skip_folders c) \<Longrightarrow>
     handle_file c path name n = ([], None)
     \<and> walk_files c path (before @ (name, n) # after) = walk_files c path (before @ after)"
  by (simp add: handle_file_skipped walk_files_append)

theorem skip_folders_check_comes_first_witness:
  "''notes.py'' \<in> set (skip_folders (example_config\<lparr>skip_folders := [''notes.py'']\<rparr>))
   \<and> \<not> go_to_next_file (example_config\<lparr>skip_folders := [''notes.py'']\<rparr>) ''notes.py''
   \<and> \<not> isdir (File [''x = 1\<newline>''] False)
   \<and> handle_file (example_config\<lparr>skip_folders := [''notes.py'']\<rparr>) ''root/proj'' ''notes.py''
         (File [''x = 1\<newline>''] False) = ([], None)
   \<and> walk_files (example_config\<lparr>skip_folders := [''notes.py'']\<rparr>) ''root/proj''
         ([] @ (''notes.py'', File [''x = 1\<newline>''] False) # []) =
       walk_files (example_config\<lparr>skip_folders := [''notes.py'']\<rparr>) ''root/proj'' ([] @ [])"
proof -
  have h: "''notes.py'' \<in> set (skip_folders (example_config\<lparr>skip_folders := [''notes.py'']\<rparr>))"
    by simp
  have e: "\<not> go_to_next_file (example_config\<lparr>skip_folders := [''notes.py'']\<rparr>) ''notes.py''"
    by (simp add: go_to_next_file_def example_config_def endswith_def suffix_to_prefix)
  from skip_folders_check_comes_first [OF h, of "''root/proj''" "File [''x = 1\<newline>''] False" "[]" "[]"] h e
  show ?thesis by (simp add: isdir_def)
qed

text \<open>
  C9. With the empty string as inline comment marker, every line of an included file
  is dropped: the file contributes its header and its footer only.
\<close>

theorem empty_marker_drops_every_line:
  assumes "inline_comment c = PStr []"
    and "block_comment c ''open'' = Some bopen"
    and "block_comment c ''close'' = Some bclose"
    and "name \<notin> set (skip_folders c)"
    and "\<not> go_to_next_file c name"
  shows "yields (fst (handle_file c path name (File ls failed))) =
           [header bopen (path_join path name) bclose, footer]
         \<and> snd (handle_file c path name (File ls failed)) = None"
  by (simp add: handle_file_File [OF assms] startswith_def)

theorem empty_marker_drops_every_line_witness:
  "inline_comment (example_config\<lparr>inline_comment := PStr []\<rparr>) = PStr []
   \<and> block_comment (example_config\<lparr>inline_comment := PStr []\<rparr>) ''open'' = Some ''/*''
   \<and> block_comment (example_config\<lparr>inline_comment := PStr []\<rparr>) ''close'' = Some ''*/''
   \<and> ''a.py'' \<notin> set (skip_folders (example_config\<lparr>inline_comment := PStr []\<rparr>))
   \<and> \<not> go_to_next_file (example_config\<lparr>inline_comment := PStr []\<rparr>) ''a.py''
   \<and> yields (fst (handle_file (example_config\<lparr>inline_comment := PStr []\<rparr>) ''root/proj'' ''a.py''
         (File [''x = 1\<newline>'', ''# note\<newline>''] False))) =
       [''```\<newline>/*\<newline>file: root/proj/a.py\<newline>*/\<newline>'', ''\<newline>```\<newline>\<newline>'']"
proof -
  let ?c = "example_config\<lparr>inline_comment := PStr []\<rparr>"
  have h1: "inline_comment ?c = PStr []" by simp
  have h2: "block_comment ?c ''open'' = Some ''/*''" by (simp add: example_eval)
  have h3: "block_comment ?c ''close'' = Some ''*/''" by (simp add: example_eval)
  have h4: "''a.py'' \<notin> set (skip_folders ?c)" by (simp add: example_eval)
  have h5: "\<not> go_to_next_file ?c ''a.py''" by (simp add: example_eval)
  from empty_marker_drops_every_line [OF h1 h2 h3 h4 h5, of "''root/proj''"
      "[''x = 1\<newline>'', ''# note\<newline>'']" False] h1 h2 h3 h4 h5
  show ?thesis by (simp add: header_def footer_def path_join_def startswith_def endswith_def suffix_to_prefix)
qed

text \<open>
  C10. With no allowed extension, no name is eligible, and the walk of any tree yields
  nothing and raises nothing. Directories are still walked: an entry that is a directory
  and is not skipped gives the events of its own walk.
\<close>

theorem no_allowed_extensions:
  assumes "allowed_extensions c = []"
  shows "go_to_next_file c name
     \<and> yields (fst (walk_directory c path dir n)) = []
     \<and> snd (walk_directory c path dir n) = None
     \<and> handle_file c path name n =
         (if name \<in> set (skip_folders c) \<or> \<not> isdir n then ([], None)
          else walk_directory c path name n)"
proof -
  have g: "go_to_next_file c name" for name
    using assms by (simp add: go_to_next_file_def)
  from walk_no_extensions(1) [OF assms, of path dir n]
  obtain lg where w: "walk_directory c path dir n = (map Log lg, None)"
    by blast
  have "handle_file c path name n =
         (if name \<in> set (skip_folders c) \<or> \<not> isdir n then ([], None)
          else walk_directory c path name n)"
    by (cases "name \<in> set (skip_folders c)")
      (simp_all add: handle_file_skipped handle_file_unskipped g)
  with g w show ?thesis by simp
qed

theorem no_allowed_extensions_witness:
  "allowed_extensions (example_config\<lparr>allowed_extensions := []\<rparr>) = []
   \<and> go_to_next_file (example_config\<lparr>allowed_extensions := []\<rparr>) ''a.py''
   \<and> yields (fst (walk_directory (example_config\<lparr>allowed_extensions := []\<rparr>) ''root'' ''proj''
         (Dir [(''a.py'', File [''x = 1\<newline>''] False), (''sub'', Locked)]))) = []
   \<and> walk_directory (example_config\<lparr>allowed_extensions := []\<rparr>) ''root'' ''proj''
         (Dir [(''a.py'', File [''x = 1\<newline>''] False), (''sub'', Locked)]) =
       ([Log (ErrorAccessingDirectory ''root/proj/sub'')], None)"
proof -
  have h: "allowed_extensions (example_config\<lparr>allowed_extensions := []\<rparr>) = []"
    by simp
  have w: "walk_directory (example_config\<lparr>allowed_extensions := []\<rparr>) ''root'' ''proj''
         (Dir [(''a.py'', File [''x = 1\<newline>''] False), (''sub'', Locked)]) =
       ([Log (ErrorAccessingDirectory ''root/proj/sub'')], None)"
    by (simp add: walk_directory.simps handle_file.simps example_config_def isdir_def
        go_to_next_file_def path_join_def startswith_def endswith_def suffix_to_prefix)
  from no_allowed_extensions [OF h, of "''a.py''" "''root''" "''proj''"
      "Dir [(''a.py'', File [''x = 1\<newline>''] False), (''sub'', Locked)]"] h w
  show ?thesis by simp
qed

end
